theory Spec2Isabelle
  imports Complex_Main "HOL-Library.AList"
begin

section \<open>The scene of GameScene.ts\<close>

text \<open>
  The theory embeds \<^verbatim>\<open>src/game/scenes/GameScene.ts\<close>: the class's fields become one
  record, every method a function from the scene to the scene. JavaScript numbers that
  are coordinates are reals, health values, colour indices and clock readings are
  integers, a \<^verbatim>\<open>Map\<close> is an association list in insertion order (\<open>AList.update\<close> keeps
  the place of a key that is there and appends a new one, as \<^verbatim>\<open>Map.set\<close> does), a field
  that may be \<^verbatim>\<open>undefined\<close> is an option. What the engine decides (overlap tests, random
  draws, the clock) is an input of the function that asks for it. The scene is the one
  that \<^verbatim>\<open>create()\<close> has built, so the local player and the obstacle group exist.
\<close>

subsection \<open>Participants\<close>

record Player =
  p_id :: string
  p_name :: string
  p_x :: real
  p_y :: real
  p_angle :: real
  p_health :: int
  p_colorIndex :: int

text \<open>
  Modelled from the spec: \<^verbatim>\<open>entities/Player.ts\<close> is not among the sources. The spec gives
  a participant a position, a health that is an integer clamped at 0, the default health
  100 and a colour index (0 for the local player, by the comment in
  \<^verbatim>\<open>getUniqueColorIndex\<close>); \<^verbatim>\<open>moveTo\<close> and \<^verbatim>\<open>setHealth\<close> store what they are given.
\<close>

definition newPlayer :: "real \<Rightarrow> real \<Rightarrow> string \<Rightarrow> string \<Rightarrow> int \<Rightarrow> Player" where
  "newPlayer px py nm pid colorIndex =
     \<lparr>p_id = pid, p_name = nm, p_x = px, p_y = py, p_angle = 0, p_health = 100,
      p_colorIndex = colorIndex\<rparr>"

definition moveTo :: "real \<Rightarrow> real \<Rightarrow> Player \<Rightarrow> Player" where
  "moveTo px py p = p\<lparr>p_x := px, p_y := py\<rparr>"

definition setPosition :: "real \<Rightarrow> real \<Rightarrow> Player \<Rightarrow> Player" where
  "setPosition px py p = p\<lparr>p_x := px, p_y := py\<rparr>"

definition setHealth :: "int \<Rightarrow> Player \<Rightarrow> Player" where
  "setHealth h p = p\<lparr>p_health := h\<rparr>"

definition damage :: "int \<Rightarrow> Player \<Rightarrow> Player" where
  "damage amount p = p\<lparr>p_health := max 0 (p_health p - amount)\<rparr>"

definition reset :: "Player \<Rightarrow> Player" where
  "reset p = p\<lparr>p_health := 100\<rparr>"

subsection \<open>Messages and inputs\<close>

text \<open>One entry of a roster snapshot; an absent field is \<open>None\<close>.\<close>

record playerState =
  ps_account :: string
  ps_x :: "real option"
  ps_y :: "real option"
  ps_name :: "string option"
  ps_health :: "int option"

record projectile =
  pr_x :: real
  pr_y :: real
  pr_ownerId :: string
  pr_creationTime :: int

text \<open>The payload of a \<^verbatim>\<open>projectileFired\<close> room message.\<close>

record projectileData =
  pf_x :: real
  pf_y :: real
  pf_targetX :: real
  pf_targetY :: real
  pf_id :: string
  pf_ownerId :: string

record hitbox =
  hb_x :: real
  hb_y :: real
  hb_width :: real
  hb_height :: real

text \<open>An element of the obstacle array of the room state (\<open>None\<close>: a null element).\<close>

record obstacleEntry =
  ob_x :: "real option"
  ob_y :: "real option"

datatype spriteRef = LocalSprite | RemoteSprite string

datatype obstacleData = NotAnArray | ObstacleArray "obstacleEntry option list"

record powerupData =
  pu_id :: "string option"
  pu_type :: "string option"
  pu_x :: real
  pu_y :: real

record roomState =
  rs_obstacles :: "obstacleData option"
  rs_powerups :: "powerupData option list option"

text \<open>The calls of \<^verbatim>\<open>server.remoteFunction\<close>, in the order they are made.\<close>

datatype message =
    PlayerAttack "string \<times> int" real real int string string
  | PlayerHit string string string int
  | PlayerDied string string
  | UpdatePlayerPosition real real real int string

text \<open>
  What one call of \<^verbatim>\<open>update(time, delta)\<close> reads from the engine: the key state, the
  facing of the local sprite, the overlap tests (asked per participant or projectile
  id), the readings of \<^verbatim>\<open>Date.now()\<close> and the draws of \<^verbatim>\<open>Phaser.Math.Between\<close>.
\<close>

record tickInput =
  ti_time :: real
  ti_justDown :: bool
  ti_flipX :: bool
  ti_attackNow :: int
  ti_hitboxOverlaps :: "string \<Rightarrow> bool"
  ti_overlapsPlayer :: "string \<Rightarrow> bool"
  ti_overlapsObstacles :: "string \<Rightarrow> bool"
  ti_now :: "string \<Rightarrow> int"
  ti_respawn :: "string \<Rightarrow> real \<times> real"

subsection \<open>The fields of the class\<close>

text \<open>
  \<open>obstacles\<close> lists the positions of the bodies of the static group in creation
  order, \<open>colliders\<close> the sprites that collide with it, \<open>hitLog\<close> the ids
  written by the \<^verbatim>\<open>console.log\<close> of the melee pass (line 212), \<open>outbox\<close> the remote
  calls made. \<open>frameWidth\<close> is \<^verbatim>\<open>KnightConfig.frameWidth\<close>, whose file is not among the
  sources: a parameter of the scene.
\<close>

record scene =
  player :: Player
  otherPlayers :: "(string \<times> Player) list"
  projectiles :: "(string \<times> projectile) list"
  powerups :: "powerupData list"
  attackHitbox :: "hitbox option"
  hitPlayers :: "string set"
  obstacles :: "(real \<times> real) list"
  colliders :: "spriteRef list"
  playerName :: string
  lastPositionUpdate :: real
  myAccount :: string
  serverInitialized :: bool
  assetsLoaded :: bool
  obstaclesCreated :: bool
  usedColorIndices :: "int set"
  attackCooldown :: bool
  damagedPlayers :: "string \<rightharpoonup> int"
  frameWidth :: real
  hitLog :: "string list"
  outbox :: "message list"

section \<open>JavaScript operators\<close>

text \<open>\<^verbatim>\<open>a || d\<close> on a number that may be absent: \<^verbatim>\<open>undefined\<close> and 0 are falsy.\<close>

definition orNumber :: "int option \<Rightarrow> int \<Rightarrow> int" where
  "orNumber a d = (case a of None \<Rightarrow> d | Some v \<Rightarrow> if v = 0 then d else v)"

text \<open>\<^verbatim>\<open>a || d\<close> on a string that may be absent: the empty string is falsy.\<close>

definition orString :: "string option \<Rightarrow> string \<Rightarrow> string" where
  "orString a d = (case a of None \<Rightarrow> d | Some v \<Rightarrow> if v = [] then d else v)"

text \<open>\<^verbatim>\<open>ToInt32\<close>: the value modulo \<open>2^32\<close>, read as two's complement.\<close>

definition toInt32 :: "int \<Rightarrow> int" where
  "toInt32 v = (v + 2147483648) mod 4294967296 - 2147483648"

text \<open>\<^verbatim>\<open>a << n\<close> on an integer.\<close>

definition shiftLeft :: "int \<Rightarrow> nat \<Rightarrow> int" where
  "shiftLeft a n = toInt32 (toInt32 a * 2 ^ n)"

text \<open>\<^verbatim>\<open>a & a\<close>: the operand as a 32-bit integer.\<close>

definition andSelf :: "int \<Rightarrow> int" where
  "andSelf a = toInt32 a"

text \<open>\<^verbatim>\<open>a % b\<close> on integers: the remainder has the sign of the dividend.\<close>

definition jsRem :: "int \<Rightarrow> int \<Rightarrow> int" where
  "jsRem a b = sgn a * (\<bar>a\<bar> mod \<bar>b\<bar>)"

section \<open>The colour allocator\<close>

text \<open>\<^verbatim>\<open>hashCode\<close> (lines 606-614); a character is its code.\<close>

definition hashCode :: "string \<Rightarrow> int" where
  "hashCode str = fold (\<lambda>c hash. andSelf ((shiftLeft hash 5 - hash) + of_char c)) str 0"

text \<open>
  \<^verbatim>\<open>getUniqueColorIndex\<close> (lines 592-603): the first of 1..8 that is not in use is taken
  and recorded; when all are in use the index comes from the hash and nothing is
  recorded.
\<close>

definition getUniqueColorIndex :: "string \<Rightarrow> scene \<Rightarrow> int \<times> scene" where
  "getUniqueColorIndex playerId st =
     (case find (\<lambda>i. i \<notin> usedColorIndices st) [1..8] of
        Some i \<Rightarrow> (i, st\<lparr>usedColorIndices := insert i (usedColorIndices st)\<rparr>)
      | None \<Rightarrow> (\<bar>jsRem (hashCode playerId) 8\<bar> + 1, st))"

text \<open>The index that the departure branch of \<^verbatim>\<open>updatePlayerStates\<close> frees (line 672).\<close>

definition releaseIndex :: "string \<Rightarrow> int" where
  "releaseIndex pid = jsRem (hashCode pid) 8 + 1"

section \<open>Combat\<close>

text \<open>
  \<^verbatim>\<open>handlePlayerDeath\<close> (lines 539-558); \<open>rnd\<close> holds the two draws of
  \<^verbatim>\<open>Phaser.Math.Between(100, 1900)\<close>.
\<close>

definition handlePlayerDeath :: "real \<times> real \<Rightarrow> string \<Rightarrow> string \<Rightarrow> scene \<Rightarrow> scene" where
  "handlePlayerDeath rnd playerId killerId st =
     (if playerId = myAccount st then
        let st1 = st\<lparr>player := reset (setPosition (fst rnd) (snd rnd) (player st))\<rparr>
        in if serverInitialized st1
           then st1\<lparr>outbox := outbox st1 @ [PlayerDied playerId killerId]\<rparr>
           else st1
      else st)"

text \<open>\<^verbatim>\<open>handlePlayerHit\<close> (lines 498-537).\<close>

definition handlePlayerHit :: "real \<times> real \<Rightarrow> string \<Rightarrow> string \<Rightarrow> string \<Rightarrow> scene \<Rightarrow> scene" where
  "handlePlayerHit rnd targetId attackerId projectileId st =
     (let st1 =
        (if targetId = myAccount st then
           let st2 = st\<lparr>player := damage 10 (player st)\<rparr>
           in if p_health (player st2) \<le> 0
              then handlePlayerDeath rnd targetId attackerId st2
              else st2
         else
           (case map_of (otherPlayers st) targetId of
              Some targetPlayer \<Rightarrow>
                let damaged = damage 10 targetPlayer
                in st\<lparr>otherPlayers := AList.update targetId damaged (otherPlayers st),
                      damagedPlayers := (damagedPlayers st)(targetId \<mapsto> p_health damaged)\<rparr>
            | None \<Rightarrow> st))
      in if serverInitialized st1
         then st1\<lparr>outbox := outbox st1 @ [PlayerHit targetId attackerId projectileId 10]\<rparr>
         else st1)"

text \<open>
  \<^verbatim>\<open>createAttackHitbox\<close> (lines 340-379): the hitbox in front of the local sprite
  replaces the one there is. Its removal 300 ms later is \<open>hitboxTimer\<close> below.
\<close>

definition createAttackHitbox :: "int \<Rightarrow> scene \<Rightarrow> scene" where
  "createAttackHitbox direction st =
     st\<lparr>attackHitbox :=
          Some \<lparr>hb_x = p_x (player st) + of_int direction * (frameWidth st / 2 + 80 / 2),
                hb_y = p_y (player st), hb_width = 80, hb_height = 60\<rparr>\<rparr>"

definition hitboxTimer :: "scene \<Rightarrow> scene" where
  "hitboxTimer st = (case attackHitbox st of Some hb \<Rightarrow> st\<lparr>attackHitbox := None\<rparr> | None \<Rightarrow> st)"

text \<open>
  \<^verbatim>\<open>handleSpacebarAttack\<close> (lines 303-338); \<open>flipX\<close> is the facing of the local sprite,
  \<open>now\<close> the reading of \<^verbatim>\<open>Date.now()\<close> that names the attack. The cooldown is reset
  500 ms later by \<open>cooldownTimer\<close>.
\<close>

definition handleSpacebarAttack :: "bool \<Rightarrow> int \<Rightarrow> scene \<Rightarrow> scene" where
  "handleSpacebarAttack flipX now st =
     (if \<not> serverInitialized st then st
      else
        let direction = (if flipX then - 1 else 1);
            st1 = st\<lparr>attackCooldown := True\<rparr>;
            st2 = st1\<lparr>hitPlayers := {}\<rparr>;
            st3 = createAttackHitbox direction st2
        in st3\<lparr>outbox := outbox st3 @
               [PlayerAttack (myAccount st3, now) (p_x (player st3)) (p_y (player st3))
                  direction (myAccount st3) (playerName st3)]\<rparr>)"

definition cooldownTimer :: "scene \<Rightarrow> scene" where
  "cooldownTimer st = st\<lparr>attackCooldown := False\<rparr>"

text \<open>
  The melee pass of \<^verbatim>\<open>update\<close> (lines 200-218): the body of the \<^verbatim>\<open>forEach\<close> over the
  remote participants, then the pass, which runs only while a hitbox is there.
\<close>

definition meleeCheck :: "tickInput \<Rightarrow> string \<times> Player \<Rightarrow> scene \<Rightarrow> scene" where
  "meleeCheck inp ip st =
     (let pid = fst ip in
      if pid \<in> hitPlayers st then st
      else if ti_hitboxOverlaps inp pid then
        handlePlayerHit (ti_respawn inp pid) pid (myAccount st) ''melee_attack''
          (st\<lparr>hitPlayers := insert pid (hitPlayers st), hitLog := hitLog st @ [pid]\<rparr>)
      else st)"

definition meleePass :: "tickInput \<Rightarrow> scene \<Rightarrow> scene" where
  "meleePass inp st =
     (case attackHitbox st of
        Some hb \<Rightarrow> fold (meleeCheck inp) (otherPlayers st) st
      | None \<Rightarrow> st)"

section \<open>Projectiles\<close>

text \<open>
  \<^verbatim>\<open>handleProjectileFired\<close> and \<^verbatim>\<open>createProjectile\<close> (lines 381-449), for an active
  scene; \<open>now\<close> is the reading of \<^verbatim>\<open>Date.now()\<close> stored as the creation time. Rotation
  and velocity belong to the physics engine and are not kept.
\<close>

definition createProjectile :: "projectileData \<Rightarrow> int \<Rightarrow> scene \<Rightarrow> scene" where
  "createProjectile d now st =
     st\<lparr>projectiles :=
          AList.update (pf_id d)
            \<lparr>pr_x = pf_x d, pr_y = pf_y d, pr_ownerId = pf_ownerId d, pr_creationTime = now\<rparr>
            (projectiles st)\<rparr>"

definition handleProjectileFired :: "projectileData \<Rightarrow> int \<Rightarrow> scene \<Rightarrow> scene" where
  "handleProjectileFired d now st =
     (if pf_ownerId d = myAccount st then st else createProjectile d now st)"

text \<open>The callback of the collider that \<^verbatim>\<open>createProjectile\<close> registers (lines 440-443).\<close>

definition projectileCollider :: "string \<Rightarrow> scene \<Rightarrow> scene" where
  "projectileCollider pid st = st\<lparr>projectiles := AList.delete pid (projectiles st)\<rparr>"

text \<open>
  The projectile pass of \<^verbatim>\<open>update\<close> (lines 225-247): the body of the \<^verbatim>\<open>forEach\<close>, with
  its three checks in the order of the source, then the pass.
\<close>

definition projectileCheck :: "tickInput \<Rightarrow> string \<times> projectile \<Rightarrow> scene \<Rightarrow> scene" where
  "projectileCheck inp ip st =
     (let pid = fst ip; pr = snd ip;
          st1 = (if pr_ownerId pr \<noteq> myAccount st \<and> ti_overlapsPlayer inp pid
                 then (let st' = handlePlayerHit (ti_respawn inp pid) (myAccount st)
                                   (pr_ownerId pr) pid st
                       in st'\<lparr>projectiles := AList.delete pid (projectiles st')\<rparr>)
                 else st);
          st2 = (if ti_overlapsObstacles inp pid
                 then st1\<lparr>projectiles := AList.delete pid (projectiles st1)\<rparr>
                 else st1)
      in if ti_now inp pid - pr_creationTime pr > 2000
         then st2\<lparr>projectiles := AList.delete pid (projectiles st2)\<rparr>
         else st2)"

definition projectilePass :: "tickInput \<Rightarrow> scene \<Rightarrow> scene" where
  "projectilePass inp st = fold (projectileCheck inp) (projectiles st) st"

section \<open>The frame update\<close>

text \<open>\<^verbatim>\<open>updatePlayerOnServer\<close> (lines 560-576).\<close>

definition updatePlayerOnServer :: "scene \<Rightarrow> scene" where
  "updatePlayerOnServer st =
     (if \<not> serverInitialized st then st
      else st\<lparr>outbox := outbox st @
             [UpdatePlayerPosition (p_x (player st)) (p_y (player st)) (p_angle (player st))
                (p_health (player st)) (playerName st)]\<rparr>)"

text \<open>
  \<^verbatim>\<open>update\<close> (lines 183-248). The movement of the sprites (\<^verbatim>\<open>player.update()\<close>) is the
  engine's; 50 is \<^verbatim>\<open>positionUpdateInterval\<close>.
\<close>

definition update :: "tickInput \<Rightarrow> scene \<Rightarrow> scene" where
  "update inp st =
     (let st1 = (if serverInitialized st \<and> ti_time inp - lastPositionUpdate st > 50
                 then (updatePlayerOnServer st)\<lparr>lastPositionUpdate := ti_time inp\<rparr>
                 else st);
          st2 = (if ti_justDown inp \<and> \<not> attackCooldown st1
                 then handleSpacebarAttack (ti_flipX inp) (ti_attackNow inp) st1
                 else st1);
          st3 = meleePass inp st2
      in projectilePass inp st3)"

section \<open>World bootstrap\<close>

text \<open>\<^verbatim>\<open>createBorderObstacles\<close> (lines 288-296): the loop from \<open>i\<close> on.\<close>

function createBorderObstacles :: "int \<Rightarrow> (real \<times> real) list \<Rightarrow> (real \<times> real) list" where
  "createBorderObstacles i obs =
     (if i < 2000
      then createBorderObstacles (i + 50)
             (obs @ [(of_int i, 0), (of_int i, 2000), (0, of_int i), (2000, of_int i)])
      else obs)"
  by pat_completeness auto
termination
  by (relation "measure (\<lambda>(i, obs). nat (2000 - i))") auto

text \<open>The body of the \<^verbatim>\<open>forEach\<close> over the server's obstacle array (lines 265-270).\<close>

definition createObstacle :: "obstacleEntry option \<Rightarrow> (real \<times> real) list \<Rightarrow> (real \<times> real) list" where
  "createObstacle d obs =
     (case d of
        None \<Rightarrow> obs
      | Some e \<Rightarrow>
          (case (ob_x e, ob_y e) of
             (Some ox, Some oy) \<Rightarrow> obs @ [(ox, oy)]
           | _ \<Rightarrow> obs))"

text \<open>\<^verbatim>\<open>createObstaclesFromServer\<close> (lines 251-285).\<close>

definition createObstaclesFromServer :: "obstacleData \<Rightarrow> scene \<Rightarrow> scene" where
  "createObstaclesFromServer obstacleData st =
     (if \<not> assetsLoaded st \<or> obstaclesCreated st then st
      else
        let border = createBorderObstacles 0 [];
            created = (case obstacleData of
                         ObstacleArray ds \<Rightarrow> fold createObstacle ds border
                       | NotAnArray \<Rightarrow> border)
        in st\<lparr>obstacles := created,
              colliders := colliders st @ [LocalSprite] @
                           map (\<lambda>ip. RemoteSprite (fst ip)) (otherPlayers st),
              obstaclesCreated := True\<rparr>)"

text \<open>The callback given to \<^verbatim>\<open>subscribeRoomState\<close> (lines 176-180).\<close>

definition roomStateCallback :: "roomState option \<Rightarrow> scene \<Rightarrow> scene" where
  "roomStateCallback state st =
     (case state of
        None \<Rightarrow> st
      | Some s \<Rightarrow>
          (case rs_obstacles s of
             None \<Rightarrow> st
           | Some od \<Rightarrow> if \<not> obstaclesCreated st then createObstaclesFromServer od st else st))"

text \<open>\<^verbatim>\<open>syncPowerups\<close> (lines 684-711) and \<^verbatim>\<open>handlePowerupSpawned\<close> (lines 451-474).\<close>

definition syncPowerup :: "powerupData option \<Rightarrow> powerupData list \<Rightarrow> powerupData list" where
  "syncPowerup d ps =
     (case d of
        None \<Rightarrow> ps
      | Some e \<Rightarrow>
          if pu_id e = None \<or> pu_id e = Some [] \<or> pu_type e = None \<or> pu_type e = Some []
          then ps else ps @ [e])"

definition syncPowerups :: "powerupData option list \<Rightarrow> scene \<Rightarrow> scene" where
  "syncPowerups powerupData st =
     (if \<not> assetsLoaded st then st
      else st\<lparr>powerups := fold syncPowerup powerupData []\<rparr>)"

definition handlePowerupSpawned :: "powerupData \<Rightarrow> scene \<Rightarrow> scene" where
  "handlePowerupSpawned d st =
     (if \<not> assetsLoaded st then st else st\<lparr>powerups := powerups st @ [d]\<rparr>)"

text \<open>\<^verbatim>\<open>updateRoomState\<close> (lines 578-589).\<close>

definition updateRoomState :: "roomState \<Rightarrow> scene \<Rightarrow> scene" where
  "updateRoomState roomState st =
     (let st1 = (case rs_powerups roomState of
                   Some ps \<Rightarrow> syncPowerups ps st
                 | None \<Rightarrow> st)
      in case rs_obstacles roomState of
           Some od \<Rightarrow> if \<not> obstaclesCreated st1 then createObstaclesFromServer od st1 else st1
         | None \<Rightarrow> st1)"

section \<open>The roster\<close>

text \<open>
  \<^verbatim>\<open>updatePlayerStates\<close> (lines 616-682): the body of the first \<^verbatim>\<open>forEach\<close>, which
  handles one entry of the snapshot.
\<close>

definition processEntry :: "playerState \<Rightarrow> scene \<Rightarrow> scene" where
  "processEntry playerState st =
     (let playerId = ps_account playerState in
      if playerId = myAccount st then st
      else
        (case (ps_x playerState, ps_y playerState) of
           (Some px, Some py) \<Rightarrow>
             (case map_of (otherPlayers st) playerId of
                Some p \<Rightarrow>
                  let moved = moveTo px py p;
                      healed =
                        (case damagedPlayers st playerId of
                           Some damagedHealth \<Rightarrow> setHealth damagedHealth moved
                         | None \<Rightarrow> setHealth (orNumber (ps_health playerState) 100) moved)
                  in st\<lparr>otherPlayers := AList.update playerId healed (otherPlayers st)\<rparr>
              | None \<Rightarrow>
                  let (colorIndex, st1) = getUniqueColorIndex playerId st;
                      created = newPlayer px py (orString (ps_name playerState) ''Unknown'')
                                  playerId colorIndex
                  in st1\<lparr>otherPlayers := AList.update playerId created (otherPlayers st1),
                         colliders := (if obstaclesCreated st1
                                       then colliders st1 @ [RemoteSprite playerId]
                                       else colliders st1)\<rparr>)
         | _ \<Rightarrow> st))"

text \<open>
  The body of the second \<^verbatim>\<open>forEach\<close> (lines 669-681): a registered participant whose id
  is not in the snapshot leaves.
\<close>

definition removeAbsent :: "string set \<Rightarrow> string \<times> Player \<Rightarrow> scene \<Rightarrow> scene" where
  "removeAbsent currentPlayerIds ip st =
     (let pid = fst ip in
      if pid \<notin> currentPlayerIds then
        st\<lparr>usedColorIndices := usedColorIndices st - {releaseIndex pid},
            damagedPlayers := (damagedPlayers st)(pid := None),
            otherPlayers := AList.delete pid (otherPlayers st)\<rparr>
      else st)"

text \<open>The method; \<open>None\<close> is a snapshot that is \<^verbatim>\<open>null\<close> or \<^verbatim>\<open>undefined\<close>.\<close>

definition updatePlayerStates :: "playerState list option \<Rightarrow> scene \<Rightarrow> scene" where
  "updatePlayerStates playerStates st =
     (case playerStates of
        None \<Rightarrow> st
      | Some pss \<Rightarrow>
          let st1 = fold processEntry pss st;
              currentPlayerIds = set (map ps_account pss)
          in fold (removeAbsent currentPlayerIds) (otherPlayers st1) st1)"

section \<open>Events\<close>

text \<open>
  Everything that runs on the scene after \<^verbatim>\<open>create()\<close>: the frame update, the roster
  snapshot, the two delayed calls, the room messages, the collider callback of a
  projectile and the two sources of the room state. The methods that build the scene
  (\<^verbatim>\<open>setGameData\<close>, \<^verbatim>\<open>preload\<close>, \<^verbatim>\<open>create\<close> and what they call) are not events, and
  \<^verbatim>\<open>collectPowerup\<close> has no caller in the class.
\<close>

datatype event =
    Update tickInput
  | UpdatePlayerStates "playerState list option"
  | HitboxTimer
  | CooldownTimer
  | ProjectileFired projectileData int
  | ProjectileCollider string
  | PowerupSpawned powerupData
  | RoomStateCallback "roomState option"
  | UpdateRoomState roomState

fun step :: "event \<Rightarrow> scene \<Rightarrow> scene" where
  "step (Update inp) st = update inp st"
| "step (UpdatePlayerStates pss) st = updatePlayerStates pss st"
| "step HitboxTimer st = hitboxTimer st"
| "step CooldownTimer st = cooldownTimer st"
| "step (ProjectileFired d now) st = handleProjectileFired d now st"
| "step (ProjectileCollider pid) st = projectileCollider pid st"
| "step (PowerupSpawned d) st = handlePowerupSpawned d st"
| "step (RoomStateCallback state) st = roomStateCallback state st"
| "step (UpdateRoomState roomState) st = updateRoomState roomState st"

definition run :: "event list \<Rightarrow> scene \<Rightarrow> scene" where
  "run evs st = fold step evs st"

text \<open>The ids registered as remote participants.\<close>

definition registered :: "scene \<Rightarrow> string set" where
  "registered st = fst ` set (otherPlayers st)"

text \<open>
  A scene after \<^verbatim>\<open>create()\<close> and \<^verbatim>\<open>setGameData\<close> for the account \<open>''me''\<close>, used for the
  concrete runs below.
\<close>

definition scene0 :: scene where
  "scene0 =
     \<lparr>player = newPlayer 500 500 ''Me'' ''me'' 0, otherPlayers = [], projectiles = [],
      powerups = [], attackHitbox = None, hitPlayers = {}, obstacles = [], colliders = [],
      playerName = ''Me'', lastPositionUpdate = 0, myAccount = ''me'',
      serverInitialized = True, assetsLoaded = True, obstaclesCreated = False,
      usedColorIndices = {}, attackCooldown = False, damagedPlayers = Map.empty,
      frameWidth = 64, hitLog = [], outbox = []\<rparr>"

section \<open>Notions of the statements\<close>

text \<open>A snapshot entry that carries both coordinates.\<close>

definition hasPosition :: "playerState \<Rightarrow> bool" where
  "hasPosition e = (ps_x e \<noteq> None \<and> ps_y e \<noteq> None)"

text \<open>The remote calls made between two states of one run.\<close>

definition emitted :: "scene \<Rightarrow> scene \<Rightarrow> message list" where
  "emitted st st' = drop (length (outbox st)) (outbox st')"

text \<open>Colour indices allocated one after the other, with nothing released in between.\<close>

fun allocateAll :: "string list \<Rightarrow> scene \<Rightarrow> int list \<times> scene" where
  "allocateAll [] st = ([], st)"
| "allocateAll (pid # pids) st =
     (let (i, st1) = getUniqueColorIndex pid st;
          (js, st2) = allocateAll pids st1
      in (i # js, st2))"

text \<open>
  An event spawns an attack when it is a frame update whose key check passes and
  whose \<^verbatim>\<open>handleSpacebarAttack\<close> gets past its guard; a run without a new attack has
  no such event.
\<close>

definition spawnsAttack :: "event \<Rightarrow> scene \<Rightarrow> bool" where
  "spawnsAttack ev st =
     (case ev of
        Update inp \<Rightarrow> ti_justDown inp \<and> \<not> attackCooldown st \<and> serverInitialized st
      | _ \<Rightarrow> False)"

fun noSpawn :: "event list \<Rightarrow> scene \<Rightarrow> bool" where
  "noSpawn [] st = True"
| "noSpawn (ev # evs) st = (\<not> spawnsAttack ev st \<and> noSpawn evs (step ev st))"

text \<open>
  Between two states the local account is the same, the remote calls of the first are
  a prefix of those of the second, and every \<^verbatim>\<open>playerDied\<close> call made in between names
  the local account.
\<close>

definition deathsLocal :: "scene \<Rightarrow> scene \<Rightarrow> bool" where
  "deathsLocal st st' =
     (myAccount st' = myAccount st \<and>
      (\<exists>new. outbox st' = outbox st @ new \<and>
             (\<forall>p k. PlayerDied p k \<in> set new \<longrightarrow> p = myAccount st)))"

text \<open>A frame in which no key is down and nothing overlaps, for the concrete runs.\<close>

definition tick0 :: tickInput where
  "tick0 = \<lparr>ti_time = 0, ti_justDown = False, ti_flipX = False, ti_attackNow = 0,
     ti_hitboxOverlaps = (\<lambda>_. False), ti_overlapsPlayer = (\<lambda>_. False),
     ti_overlapsObstacles = (\<lambda>_. False), ti_now = (\<lambda>_. 0),
     ti_respawn = (\<lambda>_. (100, 100))\<rparr>"

text \<open>The colour indices that the scan of \<^verbatim>\<open>getUniqueColorIndex\<close> can still take.\<close>

definition freeColors :: "scene \<Rightarrow> int list" where
  "freeColors st = filter (\<lambda>i. i \<notin> usedColorIndices st) [1..8]"

text \<open>A participant has an overlay entry.\<close>

definition overlaid :: "string \<Rightarrow> scene \<Rightarrow> bool" where
  "overlaid X st = (damagedPlayers st X \<noteq> None)"

text \<open>
  The hits that the gate has granted to a target so far, plus the one that it can
  still grant while the target is not in the hit set.
\<close>

definition hitBudget :: "string \<Rightarrow> scene \<Rightarrow> nat" where
  "hitBudget X st = count_list (hitLog st) X + (if X \<in> hitPlayers st then 0 else 1)"

text \<open>
  Scenes for the concrete runs: the remote participant \<open>''p1''\<close> registered with an
  overlay entry of 90, and registered with no overlay entry; a frame in which the
  attack key goes down, and one without the key, both with every participant inside
  the hitbox.
\<close>

definition scene1 :: scene where
  "scene1 = scene0\<lparr>otherPlayers := [(''p1'', setHealth 90 (newPlayer 10 20 ''P1'' ''p1'' 1))],
                    usedColorIndices := {1}, damagedPlayers := [''p1'' \<mapsto> 90]\<rparr>"

definition scene2 :: scene where
  "scene2 = scene0\<lparr>otherPlayers := [(''p1'', newPlayer 10 20 ''P1'' ''p1'' 1)],
                    usedColorIndices := {1}\<rparr>"

definition tickAttack :: tickInput where
  "tickAttack = tick0\<lparr>ti_justDown := True, ti_hitboxOverlaps := (\<lambda>_. True)\<rparr>"

definition tickOverlap :: tickInput where
  "tickOverlap = tick0\<lparr>ti_hitboxOverlaps := (\<lambda>_. True)\<rparr>"

section \<open>Auxiliary facts\<close>

lemma upto_1_8: "[1..8] = [1, 2, 3, 4, 5, 6, 7, 8 :: int]"
  by code_simp

lemma hashCode_player: "hashCode ''player'' = - 985752863"
  by (simp add: hashCode_def andSelf_def shiftLeft_def toInt32_def)

lemma map_of_Some_key: "map_of xs k = Some v \<Longrightarrow> k \<in> fst ` set xs"
  by (metis domI dom_map_of_conv_image_fst)

lemma fold_invariant:
  assumes "P st" and "\<And>x s. x \<in> set xs \<Longrightarrow> P s \<Longrightarrow> P (f x s)"
  shows "P (fold f xs st)"
  using assms by (induction xs arbitrary: st) auto

subsection \<open>What the hit and death handlers leave alone\<close>

lemma handlePlayerDeath_frame [simp]:
  "otherPlayers (handlePlayerDeath rnd t a st) = otherPlayers st"
  "projectiles (handlePlayerDeath rnd t a st) = projectiles st"
  "hitPlayers (handlePlayerDeath rnd t a st) = hitPlayers st"
  "hitLog (handlePlayerDeath rnd t a st) = hitLog st"
  "attackHitbox (handlePlayerDeath rnd t a st) = attackHitbox st"
  "obstacles (handlePlayerDeath rnd t a st) = obstacles st"
  "obstaclesCreated (handlePlayerDeath rnd t a st) = obstaclesCreated st"
  "assetsLoaded (handlePlayerDeath rnd t a st) = assetsLoaded st"
  "serverInitialized (handlePlayerDeath rnd t a st) = serverInitialized st"
  "attackCooldown (handlePlayerDeath rnd t a st) = attackCooldown st"
  "myAccount (handlePlayerDeath rnd t a st) = myAccount st"
  "damagedPlayers (handlePlayerDeath rnd t a st) = damagedPlayers st"
  "usedColorIndices (handlePlayerDeath rnd t a st) = usedColorIndices st"
  by (simp_all add: handlePlayerDeath_def Let_def)

lemma handlePlayerHit_frame [simp]:
  "projectiles (handlePlayerHit rnd t a pr st) = projectiles st"
  "hitPlayers (handlePlayerHit rnd t a pr st) = hitPlayers st"
  "hitLog (handlePlayerHit rnd t a pr st) = hitLog st"
  "attackHitbox (handlePlayerHit rnd t a pr st) = attackHitbox st"
  "obstacles (handlePlayerHit rnd t a pr st) = obstacles st"
  "obstaclesCreated (handlePlayerHit rnd t a pr st) = obstaclesCreated st"
  "assetsLoaded (handlePlayerHit rnd t a pr st) = assetsLoaded st"
  "serverInitialized (handlePlayerHit rnd t a pr st) = serverInitialized st"
  "attackCooldown (handlePlayerHit rnd t a pr st) = attackCooldown st"
  "myAccount (handlePlayerHit rnd t a pr st) = myAccount st"
  "usedColorIndices (handlePlayerHit rnd t a pr st) = usedColorIndices st"
  by (simp_all add: handlePlayerHit_def Let_def split: option.split)

lemma handlePlayerHit_registered [simp]:
  "registered (handlePlayerHit rnd t a pr st) = registered st"
  by (auto simp: handlePlayerHit_def Let_def registered_def dom_update
      dest: map_of_Some_key split: option.split)

lemmas scene_eval = scene0_def tick0_def update_def meleePass_def meleeCheck_def projectilePass_def
  projectileCheck_def handlePlayerHit_def handlePlayerDeath_def handleSpacebarAttack_def
  createAttackHitbox_def updatePlayerOnServer_def handleProjectileFired_def createProjectile_def
  updatePlayerStates_def processEntry_def removeAbsent_def newPlayer_def damage_def reset_def
  setPosition_def setHealth_def moveTo_def run_def emitted_def registered_def Let_def

subsection \<open>Death calls name the local account\<close>

lemma deathsLocal_refl: "deathsLocal st st"
  by (simp add: deathsLocal_def)

lemma deathsLocal_trans:
  assumes "deathsLocal a b" and "deathsLocal b c"
  shows "deathsLocal a c"
proof -
  from assms(1) obtain n1 where 1: "myAccount b = myAccount a" "outbox b = outbox a @ n1"
    "\<forall>p k. PlayerDied p k \<in> set n1 \<longrightarrow> p = myAccount a"
    unfolding deathsLocal_def by blast
  from assms(2) obtain n2 where 2: "myAccount c = myAccount b" "outbox c = outbox b @ n2"
    "\<forall>p k. PlayerDied p k \<in> set n2 \<longrightarrow> p = myAccount b"
    unfolding deathsLocal_def by blast
  have "outbox c = outbox a @ (n1 @ n2)" using 1 2 by simp
  moreover have "\<forall>p k. PlayerDied p k \<in> set (n1 @ n2) \<longrightarrow> p = myAccount a"
    using 1 2 by auto
  ultimately show ?thesis unfolding deathsLocal_def using 1 2 by metis
qed

lemma deathsLocal_same:
  "myAccount st' = myAccount st \<Longrightarrow> outbox st' = outbox st \<Longrightarrow> deathsLocal st st'"
  by (simp add: deathsLocal_def)

lemma deathsLocal_fold:
  assumes "\<And>x s. deathsLocal s (f x s)"
  shows "deathsLocal st (fold f xs st)"
  by (rule fold_invariant[where P = "deathsLocal st"])
     (auto intro: deathsLocal_refl deathsLocal_trans assms)

lemma deathsLocal_handlePlayerDeath: "deathsLocal st (handlePlayerDeath rnd t a st)"
  by (simp add: deathsLocal_def handlePlayerDeath_def Let_def)

lemma deathsLocal_handlePlayerHit: "deathsLocal st (handlePlayerHit rnd t a pr st)"
  by (simp add: deathsLocal_def handlePlayerHit_def handlePlayerDeath_def Let_def
      split: option.split)

lemma deathsLocal_meleeCheck: "deathsLocal st (meleeCheck inp ip st)"
proof -
  have "deathsLocal st (st\<lparr>hitPlayers := insert (fst ip) (hitPlayers st), hitLog := hitLog st @ [fst ip]\<rparr>)"
    by (simp add: deathsLocal_def)
  then show ?thesis
    unfolding meleeCheck_def Let_def
    by (auto intro: deathsLocal_refl deathsLocal_trans[OF _ deathsLocal_handlePlayerHit])
qed

lemma deathsLocal_meleePass: "deathsLocal st (meleePass inp st)"
  unfolding meleePass_def
  by (auto split: option.split intro: deathsLocal_refl deathsLocal_fold deathsLocal_meleeCheck)

lemma deathsLocal_projectileCheck: "deathsLocal st (projectileCheck inp ip st)"
proof -
  have a: "deathsLocal st (handlePlayerHit rnd t a pr st\<lparr>projectiles := ps\<rparr>)" for rnd t a pr ps
    using deathsLocal_handlePlayerHit[of st rnd t a pr] by (simp add: deathsLocal_def)
  have b: "deathsLocal st s \<Longrightarrow> deathsLocal st (s\<lparr>projectiles := ps\<rparr>)" for s ps
    by (simp add: deathsLocal_def)
  show ?thesis
    unfolding projectileCheck_def Let_def
    by (auto intro: a b deathsLocal_refl)
qed

lemma deathsLocal_projectilePass: "deathsLocal st (projectilePass inp st)"
  unfolding projectilePass_def by (rule deathsLocal_fold) (rule deathsLocal_projectileCheck)

lemma deathsLocal_handleSpacebarAttack: "deathsLocal st (handleSpacebarAttack f n st)"
  by (simp add: deathsLocal_def handleSpacebarAttack_def createAttackHitbox_def Let_def)

lemma deathsLocal_update: "deathsLocal st (update inp st)"
proof -
  let ?s1 = "if serverInitialized st \<and> ti_time inp - lastPositionUpdate st > 50
             then (updatePlayerOnServer st)\<lparr>lastPositionUpdate := ti_time inp\<rparr> else st"
  let ?s2 = "if ti_justDown inp \<and> \<not> attackCooldown ?s1
             then handleSpacebarAttack (ti_flipX inp) (ti_attackNow inp) ?s1 else ?s1"
  have 1: "deathsLocal st ?s1"
    by (simp add: deathsLocal_def updatePlayerOnServer_def)
  have 2: "deathsLocal ?s1 ?s2"
    using deathsLocal_handleSpacebarAttack deathsLocal_refl by presburger
  have 3: "deathsLocal ?s2 (projectilePass inp (meleePass inp ?s2))"
    by (rule deathsLocal_trans[OF deathsLocal_meleePass deathsLocal_projectilePass])
  have "update inp st = projectilePass inp (meleePass inp ?s2)"
    by (simp add: update_def Let_def)
  then show ?thesis
    using deathsLocal_trans[OF deathsLocal_trans[OF 1 2] 3] by simp
qed

lemma getUniqueColorIndex_frame [simp]:
  "myAccount (snd (getUniqueColorIndex p st)) = myAccount st"
  "outbox (snd (getUniqueColorIndex p st)) = outbox st"
  "otherPlayers (snd (getUniqueColorIndex p st)) = otherPlayers st"
  "damagedPlayers (snd (getUniqueColorIndex p st)) = damagedPlayers st"
  "obstacles (snd (getUniqueColorIndex p st)) = obstacles st"
  "obstaclesCreated (snd (getUniqueColorIndex p st)) = obstaclesCreated st"
  "hitPlayers (snd (getUniqueColorIndex p st)) = hitPlayers st"
  "hitLog (snd (getUniqueColorIndex p st)) = hitLog st"
  "projectiles (snd (getUniqueColorIndex p st)) = projectiles st"
  "attackCooldown (snd (getUniqueColorIndex p st)) = attackCooldown st"
  "serverInitialized (snd (getUniqueColorIndex p st)) = serverInitialized st"
  by (simp_all add: getUniqueColorIndex_def split: option.split)

lemma processEntry_frame [simp]:
  "myAccount (processEntry e st) = myAccount st"
  "outbox (processEntry e st) = outbox st"
  "damagedPlayers (processEntry e st) = damagedPlayers st"
  "obstacles (processEntry e st) = obstacles st"
  "obstaclesCreated (processEntry e st) = obstaclesCreated st"
  "hitPlayers (processEntry e st) = hitPlayers st"
  "hitLog (processEntry e st) = hitLog st"
  "projectiles (processEntry e st) = projectiles st"
  "attackCooldown (processEntry e st) = attackCooldown st"
  "serverInitialized (processEntry e st) = serverInitialized st"
  by (simp_all add: processEntry_def Let_def case_prod_beta split: option.split)

lemma removeAbsent_frame [simp]:
  "myAccount (removeAbsent ids ip st) = myAccount st"
  "outbox (removeAbsent ids ip st) = outbox st"
  "obstacles (removeAbsent ids ip st) = obstacles st"
  "obstaclesCreated (removeAbsent ids ip st) = obstaclesCreated st"
  "hitPlayers (removeAbsent ids ip st) = hitPlayers st"
  "hitLog (removeAbsent ids ip st) = hitLog st"
  "projectiles (removeAbsent ids ip st) = projectiles st"
  "attackCooldown (removeAbsent ids ip st) = attackCooldown st"
  "serverInitialized (removeAbsent ids ip st) = serverInitialized st"
  by (simp_all add: removeAbsent_def Let_def)

lemma fold_frame:
  assumes "\<And>x s. g (f x s) = g s"
  shows "g (fold f xs st) = g st"
  by (induction xs arbitrary: st) (simp_all add: assms)

lemma updatePlayerStates_frame [simp]:
  "myAccount (updatePlayerStates pss st) = myAccount st"
  "outbox (updatePlayerStates pss st) = outbox st"
  "obstacles (updatePlayerStates pss st) = obstacles st"
  "obstaclesCreated (updatePlayerStates pss st) = obstaclesCreated st"
  "hitPlayers (updatePlayerStates pss st) = hitPlayers st"
  "hitLog (updatePlayerStates pss st) = hitLog st"
  "projectiles (updatePlayerStates pss st) = projectiles st"
  "attackCooldown (updatePlayerStates pss st) = attackCooldown st"
  "serverInitialized (updatePlayerStates pss st) = serverInitialized st"
  by (simp_all add: updatePlayerStates_def Let_def fold_frame split: option.split)

lemma createObstaclesFromServer_frame [simp]:
  "myAccount (createObstaclesFromServer od st) = myAccount st"
  "outbox (createObstaclesFromServer od st) = outbox st"
  "otherPlayers (createObstaclesFromServer od st) = otherPlayers st"
  "damagedPlayers (createObstaclesFromServer od st) = damagedPlayers st"
  "hitPlayers (createObstaclesFromServer od st) = hitPlayers st"
  "hitLog (createObstaclesFromServer od st) = hitLog st"
  "projectiles (createObstaclesFromServer od st) = projectiles st"
  "attackCooldown (createObstaclesFromServer od st) = attackCooldown st"
  "serverInitialized (createObstaclesFromServer od st) = serverInitialized st"
  by (simp_all add: createObstaclesFromServer_def Let_def)

lemma roomStateCallback_frame [simp]:
  "myAccount (roomStateCallback s st) = myAccount st"
  "outbox (roomStateCallback s st) = outbox st"
  "otherPlayers (roomStateCallback s st) = otherPlayers st"
  "damagedPlayers (roomStateCallback s st) = damagedPlayers st"
  "hitPlayers (roomStateCallback s st) = hitPlayers st"
  "hitLog (roomStateCallback s st) = hitLog st"
  "projectiles (roomStateCallback s st) = projectiles st"
  "attackCooldown (roomStateCallback s st) = attackCooldown st"
  "serverInitialized (roomStateCallback s st) = serverInitialized st"
  by (simp_all add: roomStateCallback_def split: option.split)

lemma updateRoomState_frame [simp]:
  "myAccount (updateRoomState rs st) = myAccount st"
  "outbox (updateRoomState rs st) = outbox st"
  "otherPlayers (updateRoomState rs st) = otherPlayers st"
  "damagedPlayers (updateRoomState rs st) = damagedPlayers st"
  "hitPlayers (updateRoomState rs st) = hitPlayers st"
  "hitLog (updateRoomState rs st) = hitLog st"
  "projectiles (updateRoomState rs st) = projectiles st"
  "attackCooldown (updateRoomState rs st) = attackCooldown st"
  "serverInitialized (updateRoomState rs st) = serverInitialized st"
  by (simp_all add: updateRoomState_def syncPowerups_def Let_def split: option.split)

lemma small_handlers_frame [simp]:
  "myAccount (hitboxTimer st) = myAccount st"
  "outbox (hitboxTimer st) = outbox st"
  "otherPlayers (hitboxTimer st) = otherPlayers st"
  "damagedPlayers (hitboxTimer st) = damagedPlayers st"
  "hitPlayers (hitboxTimer st) = hitPlayers st"
  "hitLog (hitboxTimer st) = hitLog st"
  "obstacles (hitboxTimer st) = obstacles st"
  "obstaclesCreated (hitboxTimer st) = obstaclesCreated st"
  "myAccount (handleProjectileFired d now st) = myAccount st"
  "outbox (handleProjectileFired d now st) = outbox st"
  "otherPlayers (handleProjectileFired d now st) = otherPlayers st"
  "damagedPlayers (handleProjectileFired d now st) = damagedPlayers st"
  "hitPlayers (handleProjectileFired d now st) = hitPlayers st"
  "hitLog (handleProjectileFired d now st) = hitLog st"
  "obstacles (handleProjectileFired d now st) = obstacles st"
  "obstaclesCreated (handleProjectileFired d now st) = obstaclesCreated st"
  "myAccount (handlePowerupSpawned pd st) = myAccount st"
  "outbox (handlePowerupSpawned pd st) = outbox st"
  "otherPlayers (handlePowerupSpawned pd st) = otherPlayers st"
  "damagedPlayers (handlePowerupSpawned pd st) = damagedPlayers st"
  "hitPlayers (handlePowerupSpawned pd st) = hitPlayers st"
  "hitLog (handlePowerupSpawned pd st) = hitLog st"
  "obstacles (handlePowerupSpawned pd st) = obstacles st"
  "obstaclesCreated (handlePowerupSpawned pd st) = obstaclesCreated st"
  by (simp_all add: hitboxTimer_def handleProjectileFired_def createProjectile_def
      handlePowerupSpawned_def split: option.split)

lemma deathsLocal_step: "deathsLocal st (step ev st)"
  by (cases ev)
     (simp_all add: deathsLocal_update deathsLocal_same cooldownTimer_def projectileCollider_def)

lemma deathsLocal_run: "deathsLocal st (run evs st)"
  unfolding run_def by (rule deathsLocal_fold) (rule deathsLocal_step)

lemma emitted_append: "outbox st' = outbox st @ new \<Longrightarrow> emitted st st' = new"
  by (simp add: emitted_def)

subsection \<open>What the frame update leaves alone\<close>

lemma handleSpacebarAttack_frame [simp]:
  "myAccount (handleSpacebarAttack f n st) = myAccount st"
  "otherPlayers (handleSpacebarAttack f n st) = otherPlayers st"
  "damagedPlayers (handleSpacebarAttack f n st) = damagedPlayers st"
  "obstacles (handleSpacebarAttack f n st) = obstacles st"
  "obstaclesCreated (handleSpacebarAttack f n st) = obstaclesCreated st"
  "projectiles (handleSpacebarAttack f n st) = projectiles st"
  "hitLog (handleSpacebarAttack f n st) = hitLog st"
  "serverInitialized (handleSpacebarAttack f n st) = serverInitialized st"
  by (simp_all add: handleSpacebarAttack_def createAttackHitbox_def Let_def)

lemma updatePlayerOnServer_frame [simp]:
  "myAccount (updatePlayerOnServer st) = myAccount st"
  "otherPlayers (updatePlayerOnServer st) = otherPlayers st"
  "damagedPlayers (updatePlayerOnServer st) = damagedPlayers st"
  "obstacles (updatePlayerOnServer st) = obstacles st"
  "obstaclesCreated (updatePlayerOnServer st) = obstaclesCreated st"
  "projectiles (updatePlayerOnServer st) = projectiles st"
  "hitLog (updatePlayerOnServer st) = hitLog st"
  "hitPlayers (updatePlayerOnServer st) = hitPlayers st"
  "attackCooldown (updatePlayerOnServer st) = attackCooldown st"
  "serverInitialized (updatePlayerOnServer st) = serverInitialized st"
  "attackHitbox (updatePlayerOnServer st) = attackHitbox st"
  by (simp_all add: updatePlayerOnServer_def)

lemma meleeCheck_frame [simp]:
  "myAccount (meleeCheck inp ip st) = myAccount st"
  "obstacles (meleeCheck inp ip st) = obstacles st"
  "obstaclesCreated (meleeCheck inp ip st) = obstaclesCreated st"
  "projectiles (meleeCheck inp ip st) = projectiles st"
  "registered (meleeCheck inp ip st) = registered st"
  "serverInitialized (meleeCheck inp ip st) = serverInitialized st"
  "attackCooldown (meleeCheck inp ip st) = attackCooldown st"
  by (simp_all add: meleeCheck_def Let_def) (simp add: registered_def)

lemma meleePass_frame [simp]:
  "myAccount (meleePass inp st) = myAccount st"
  "obstacles (meleePass inp st) = obstacles st"
  "obstaclesCreated (meleePass inp st) = obstaclesCreated st"
  "projectiles (meleePass inp st) = projectiles st"
  "registered (meleePass inp st) = registered st"
  "serverInitialized (meleePass inp st) = serverInitialized st"
  "attackCooldown (meleePass inp st) = attackCooldown st"
  by (simp_all add: meleePass_def fold_frame split: option.split)

lemma projectileCheck_frame [simp]:
  "myAccount (projectileCheck inp ip st) = myAccount st"
  "obstacles (projectileCheck inp ip st) = obstacles st"
  "obstaclesCreated (projectileCheck inp ip st) = obstaclesCreated st"
  "hitPlayers (projectileCheck inp ip st) = hitPlayers st"
  "hitLog (projectileCheck inp ip st) = hitLog st"
  "registered (projectileCheck inp ip st) = registered st"
  "serverInitialized (projectileCheck inp ip st) = serverInitialized st"
  "attackCooldown (projectileCheck inp ip st) = attackCooldown st"
  by (simp_all add: projectileCheck_def Let_def)
     (simp_all add: registered_def handlePlayerHit_registered[unfolded registered_def])

lemma projectilePass_frame [simp]:
  "myAccount (projectilePass inp st) = myAccount st"
  "obstacles (projectilePass inp st) = obstacles st"
  "obstaclesCreated (projectilePass inp st) = obstaclesCreated st"
  "hitPlayers (projectilePass inp st) = hitPlayers st"
  "hitLog (projectilePass inp st) = hitLog st"
  "registered (projectilePass inp st) = registered st"
  "serverInitialized (projectilePass inp st) = serverInitialized st"
  "attackCooldown (projectilePass inp st) = attackCooldown st"
  by (simp_all add: projectilePass_def fold_frame)

lemma update_frame [simp]:
  "myAccount (update inp st) = myAccount st"
  "obstacles (update inp st) = obstacles st"
  "obstaclesCreated (update inp st) = obstaclesCreated st"
  "registered (update inp st) = registered st"
  "serverInitialized (update inp st) = serverInitialized st"
  by (simp_all add: update_def Let_def) (simp_all add: registered_def)

lemma timer_frames [simp]:
  "myAccount (cooldownTimer st) = myAccount st"
  "myAccount (projectileCollider pid st) = myAccount st"
  "obstacles (cooldownTimer st) = obstacles st"
  "obstacles (projectileCollider pid st) = obstacles st"
  "obstaclesCreated (cooldownTimer st) = obstaclesCreated st"
  "obstaclesCreated (projectileCollider pid st) = obstaclesCreated st"
  "damagedPlayers (cooldownTimer st) = damagedPlayers st"
  "damagedPlayers (projectileCollider pid st) = damagedPlayers st"
  "hitPlayers (cooldownTimer st) = hitPlayers st"
  "hitPlayers (projectileCollider pid st) = hitPlayers st"
  "hitLog (cooldownTimer st) = hitLog st"
  "hitLog (projectileCollider pid st) = hitLog st"
  "outbox (cooldownTimer st) = outbox st"
  "outbox (projectileCollider pid st) = outbox st"
  by (simp_all add: cooldownTimer_def projectileCollider_def)

subsection \<open>The bootstrap guard\<close>

lemma createObstaclesFromServer_done:
  "obstaclesCreated st \<Longrightarrow> createObstaclesFromServer od st = st"
  by (simp add: createObstaclesFromServer_def)

lemma createObstaclesFromServer_sets_flag:
  "assetsLoaded st \<Longrightarrow> obstaclesCreated (createObstaclesFromServer od st)"
  by (simp add: createObstaclesFromServer_def Let_def)

lemma roomStateCallback_done: "obstaclesCreated st \<Longrightarrow> roomStateCallback s st = st"
  by (simp add: roomStateCallback_def split: option.split)

lemma updateRoomState_done:
  "obstaclesCreated st \<Longrightarrow>
     obstaclesCreated (updateRoomState rs st) \<and> obstacles (updateRoomState rs st) = obstacles st"
  by (simp add: updateRoomState_def syncPowerups_def Let_def split: option.split)

lemma step_keeps_geometry:
  "obstaclesCreated st \<Longrightarrow>
     obstaclesCreated (step ev st) \<and> obstacles (step ev st) = obstacles st"
  by (cases ev) (simp_all add: roomStateCallback_done updateRoomState_done)

lemma run_keeps_geometry:
  "obstaclesCreated st \<Longrightarrow>
     obstaclesCreated (run evs st) \<and> obstacles (run evs st) = obstacles st"
  unfolding run_def
  by (induction evs arbitrary: st) (simp_all add: step_keeps_geometry)

subsection \<open>The ids of the registry\<close>

lemma processEntry_registered:
  "registered (processEntry e st) =
     (if ps_account e \<noteq> myAccount st \<and> hasPosition e
      then insert (ps_account e) (registered st) else registered st)"
  by (auto simp: processEntry_def Let_def case_prod_beta registered_def hasPosition_def
      dom_update dest: map_of_Some_key split: option.split)

lemma keys_delete: "fst ` set (AList.delete k al) = fst ` set al - {k}"
  by (induction al) auto

lemma removeAbsent_registered:
  "registered (removeAbsent ids ip st) =
     (if fst ip \<in> ids then registered st else registered st - {fst ip})"
  by (auto simp: removeAbsent_def Let_def registered_def keys_delete)

lemma fold_processEntry_registered:
  "registered (fold processEntry pss st) =
     registered st \<union> {ps_account e | e. e \<in> set pss \<and> ps_account e \<noteq> myAccount st \<and> hasPosition e}"
  by (induction pss arbitrary: st) (auto simp: processEntry_registered)

lemma fold_removeAbsent_registered:
  "registered (fold (removeAbsent ids) xs st) = registered st - (fst ` set xs - ids)"
  by (induction xs arbitrary: st) (auto simp: removeAbsent_registered)

lemma updatePlayerStates_registered:
  "registered (updatePlayerStates (Some pss) st) =
     (registered st \<union> {ps_account e | e. e \<in> set pss \<and> ps_account e \<noteq> myAccount st \<and> hasPosition e})
     \<inter> ps_account ` set pss"
proof -
  let ?st1 = "fold processEntry pss st"
  have "registered (updatePlayerStates (Some pss) st) =
      registered ?st1 - (fst ` set (otherPlayers ?st1) - ps_account ` set pss)"
    by (simp add: updatePlayerStates_def Let_def fold_removeAbsent_registered)
  also have "\<dots> = registered ?st1 \<inter> ps_account ` set pss"
    by (auto simp: registered_def)
  finally show ?thesis by (simp add: fold_processEntry_registered)
qed


lemma processEntry_keeps_local_out:
  "myAccount st \<notin> registered st \<Longrightarrow> myAccount st \<notin> registered (processEntry e st)"
  by (auto simp: processEntry_registered)

lemma updatePlayerStates_keeps_local_out:
  "myAccount st \<notin> registered st \<Longrightarrow> myAccount st \<notin> registered (updatePlayerStates pss st)"
  by (cases pss) (auto simp: updatePlayerStates_registered, simp add: updatePlayerStates_def)

lemma other_handlers_registered [simp]:
  "registered (hitboxTimer st) = registered st"
  "registered (cooldownTimer st) = registered st"
  "registered (handleProjectileFired d now st) = registered st"
  "registered (projectileCollider pid st) = registered st"
  "registered (handlePowerupSpawned pd st) = registered st"
  "registered (roomStateCallback s st) = registered st"
  "registered (updateRoomState rs st) = registered st"
  by (simp_all add: registered_def cooldownTimer_def projectileCollider_def)

lemma step_keeps_local_out:
  "myAccount st \<notin> registered st \<Longrightarrow>
     myAccount (step ev st) = myAccount st \<and> myAccount st \<notin> registered (step ev st)"
  by (cases ev) (simp_all add: updatePlayerStates_keeps_local_out)

lemma run_keeps_local_out:
  "myAccount st \<notin> registered st \<Longrightarrow>
     myAccount (run evs st) = myAccount st \<and> myAccount st \<notin> registered (run evs st)"
  unfolding run_def
proof (induction evs arbitrary: st)
  case Nil
  then show ?case by simp
next
  case (Cons ev evs)
  from step_keeps_local_out[OF Cons.prems, of ev]
  have s: "myAccount (step ev st) = myAccount st" "myAccount (step ev st) \<notin> registered (step ev st)"
    by simp_all
  from Cons.IH[OF s(2)] s(1) show ?case by simp
qed

subsection \<open>Projectiles only leave during the pass\<close>

lemma projectileCheck_keys:
  "fst ` set (projectiles (projectileCheck inp ip st)) \<subseteq> fst ` set (projectiles st)"
  by (auto simp: projectileCheck_def Let_def keys_delete)

lemma fold_projectileCheck_keys:
  "fst ` set (projectiles (fold (projectileCheck inp) xs st)) \<subseteq> fst ` set (projectiles st)"
proof (induction xs arbitrary: st)
  case Nil
  show ?case by simp
next
  case (Cons x xs)
  have "fst ` set (projectiles (fold (projectileCheck inp) xs (projectileCheck inp x st)))
        \<subseteq> fst ` set (projectiles (projectileCheck inp x st))"
    by (rule Cons.IH)
  also have "\<dots> \<subseteq> fst ` set (projectiles st)"
    by (rule projectileCheck_keys)
  finally show ?case by simp
qed

lemma projectileCheck_expired:
  "pr_creationTime pr + 2000 < ti_now inp pid \<Longrightarrow>
     pid \<notin> fst ` set (projectiles (projectileCheck inp (pid, pr) st))"
  by (simp add: projectileCheck_def Let_def keys_delete)

lemma fold_projectileCheck_expired:
  assumes "(pid, pr) \<in> set xs" and "pr_creationTime pr + 2000 < ti_now inp pid"
  shows "pid \<notin> fst ` set (projectiles (fold (projectileCheck inp) xs st))"
  using assms(1)
proof (induction xs arbitrary: st)
  case Nil
  then show ?case by simp
next
  case (Cons x xs)
  show ?case
  proof (cases "x = (pid, pr)")
    case True
    have "pid \<notin> fst ` set (projectiles (projectileCheck inp x st))"
      unfolding True using assms(2) by (rule projectileCheck_expired)
    then show ?thesis
      using fold_projectileCheck_keys[of inp xs "projectileCheck inp x st"] by auto
  next
    case False
    with Cons.prems have "(pid, pr) \<in> set xs" by simp
    then show ?thesis using Cons.IH by simp
  qed
qed

lemma update_as_projectilePass:
  "\<exists>s. update inp st = projectilePass inp s \<and> projectiles s = projectiles st"
proof -
  let ?s1 = "if serverInitialized st \<and> ti_time inp - lastPositionUpdate st > 50
             then (updatePlayerOnServer st)\<lparr>lastPositionUpdate := ti_time inp\<rparr> else st"
  let ?s2 = "if ti_justDown inp \<and> \<not> attackCooldown ?s1
             then handleSpacebarAttack (ti_flipX inp) (ti_attackNow inp) ?s1 else ?s1"
  have "update inp st = projectilePass inp (meleePass inp ?s2)"
    by (simp add: update_def Let_def)
  moreover have "projectiles (meleePass inp ?s2) = projectiles st"
    by simp
  ultimately show ?thesis by blast
qed

subsection \<open>The scan of the colour allocator\<close>

lemma find_filter: "find P xs = (case filter P xs of [] \<Rightarrow> None | x # _ \<Rightarrow> Some x)"
  by (induction xs) auto

lemma getUniqueColorIndex_free:
  assumes "freeColors st = c # cs"
  shows "fst (getUniqueColorIndex pid st) = c"
    and "freeColors (snd (getUniqueColorIndex pid st)) = cs"
proof -
  have f: "find (\<lambda>i. i \<notin> usedColorIndices st) [1..8] = Some c"
    using assms by (simp add: find_filter freeColors_def)
  then show "fst (getUniqueColorIndex pid st) = c"
    by (simp add: getUniqueColorIndex_def)
  have d: "distinct (c # cs)"
    using assms[symmetric] by (simp add: freeColors_def del: distinct.simps)
  have "freeColors (snd (getUniqueColorIndex pid st)) =
        filter (\<lambda>i. i \<noteq> c) (freeColors st)"
    using f by (auto simp: getUniqueColorIndex_def freeColors_def intro: filter_cong)
  also have "\<dots> = cs"
    using d by (auto simp: assms filter_id_conv)
  finally show "freeColors (snd (getUniqueColorIndex pid st)) = cs" .
qed

lemma allocateAll_free:
  "length pids \<le> length (freeColors st) \<Longrightarrow>
     fst (allocateAll pids st) = take (length pids) (freeColors st)"
proof (induction pids arbitrary: st)
  case Nil
  show ?case by simp
next
  case (Cons pid pids)
  then obtain c cs where fc: "freeColors st = c # cs"
    by (cases "freeColors st") auto
  note g = getUniqueColorIndex_free[OF fc, of pid]
  have "length pids \<le> length (freeColors (snd (getUniqueColorIndex pid st)))"
    using Cons.prems by (simp add: g fc)
  from Cons.IH[OF this] show ?case
    by (simp add: case_prod_beta g fc)
qed

subsection \<open>The overlay is kept\<close>

lemma overlaid_same: "damagedPlayers st' = damagedPlayers st \<Longrightarrow> overlaid X st' = overlaid X st"
  by (simp add: overlaid_def)

lemma handlePlayerHit_keeps_overlay:
  "overlaid X st \<Longrightarrow> overlaid X (handlePlayerHit rnd t a pr st)"
  by (simp add: overlaid_def handlePlayerHit_def Let_def split: option.split)

lemma meleeCheck_keeps_overlay:
  "overlaid X st \<Longrightarrow> overlaid X (meleeCheck inp ip st)"
proof -
  assume a: "overlaid X st"
  then have "overlaid X (st\<lparr>hitPlayers := insert (fst ip) (hitPlayers st), hitLog := hitLog st @ [fst ip]\<rparr>)"
    by (simp add: overlaid_def)
  then have "overlaid X (handlePlayerHit (ti_respawn inp (fst ip)) (fst ip) (myAccount st) ''melee_attack''
       (st\<lparr>hitPlayers := insert (fst ip) (hitPlayers st), hitLog := hitLog st @ [fst ip]\<rparr>))"
    by (rule handlePlayerHit_keeps_overlay)
  with a show ?thesis
    by (simp add: meleeCheck_def Let_def)
qed

lemma projectileCheck_keeps_overlay:
  "overlaid X st \<Longrightarrow> overlaid X (projectileCheck inp ip st)"
proof -
  assume a: "overlaid X st"
  have "overlaid X (handlePlayerHit rnd t k pr st)" for rnd t k pr
    using a by (rule handlePlayerHit_keeps_overlay)
  then have h: "overlaid X (handlePlayerHit rnd t k pr st\<lparr>projectiles := ps\<rparr>)" for rnd t k pr ps
    by (simp add: overlaid_def)
  have d: "overlaid X s \<Longrightarrow> overlaid X (s\<lparr>projectiles := ps\<rparr>)" for s ps
    by (simp add: overlaid_def)
  show ?thesis
    unfolding projectileCheck_def Let_def
    by (auto intro: a h d)
qed

lemma meleePass_keeps_overlay:
  assumes "overlaid X st"
  shows "overlaid X (meleePass inp st)"
proof (cases "attackHitbox st")
  case None
  then show ?thesis using assms by (simp add: meleePass_def)
next
  case (Some hb)
  have "overlaid X (fold (meleeCheck inp) (otherPlayers st) st)"
  proof (rule fold_invariant[where P = "overlaid X"])
    show "overlaid X st" by (rule assms)
  next
    fix x s
    assume "overlaid X s"
    then show "overlaid X (meleeCheck inp x s)" by (rule meleeCheck_keeps_overlay)
  qed
  then show ?thesis using Some by (simp add: meleePass_def)
qed

lemma projectilePass_keeps_overlay:
  assumes "overlaid X st"
  shows "overlaid X (projectilePass inp st)"
  unfolding projectilePass_def
proof (rule fold_invariant[where P = "overlaid X"])
  show "overlaid X st" by (rule assms)
next
  fix x s
  assume "overlaid X s"
  then show "overlaid X (projectileCheck inp x s)" by (rule projectileCheck_keeps_overlay)
qed

lemma update_keeps_overlay:
  assumes "overlaid X st"
  shows "overlaid X (update inp st)"
proof -
  let ?s1 = "if serverInitialized st \<and> ti_time inp - lastPositionUpdate st > 50
             then (updatePlayerOnServer st)\<lparr>lastPositionUpdate := ti_time inp\<rparr> else st"
  let ?s2 = "if ti_justDown inp \<and> \<not> attackCooldown ?s1
             then handleSpacebarAttack (ti_flipX inp) (ti_attackNow inp) ?s1 else ?s1"
  have "damagedPlayers ?s2 = damagedPlayers st" by simp
  then have "overlaid X ?s2" using assms overlaid_same by blast
  then have "overlaid X (projectilePass inp (meleePass inp ?s2))"
    by (intro projectilePass_keeps_overlay meleePass_keeps_overlay)
  moreover have "update inp st = projectilePass inp (meleePass inp ?s2)"
    by (simp add: update_def Let_def)
  ultimately show ?thesis by simp
qed

lemma fold_removeAbsent_overlay:
  "damagedPlayers (fold (removeAbsent ids) xs st) X =
     (if X \<in> fst ` set xs - ids then None else damagedPlayers st X)"
  by (induction xs arbitrary: st) (auto simp: removeAbsent_def Let_def)

lemma updatePlayerStates_overlay:
  "damagedPlayers (updatePlayerStates (Some pss) st) X =
     (if X \<in> registered st \<and> X \<notin> ps_account ` set pss then None else damagedPlayers st X)"
proof -
  let ?st1 = "fold processEntry pss st"
  have d: "damagedPlayers ?st1 = damagedPlayers st"
    by (simp add: fold_frame)
  have r: "X \<in> fst ` set (otherPlayers ?st1) - ps_account ` set pss \<longleftrightarrow>
           X \<in> registered st \<and> X \<notin> ps_account ` set pss"
    using fold_processEntry_registered[of pss st] unfolding registered_def by auto
  show ?thesis
    by (simp add: updatePlayerStates_def Let_def fold_removeAbsent_overlay d r del: Diff_iff)
qed

lemma processEntry_known_overlay:
  assumes "ps_account e = X" and "X \<noteq> myAccount st" and "map_of (otherPlayers st) X = Some p"
    and "ps_x e = Some px" and "ps_y e = Some py" and "damagedPlayers st X = Some h"
  shows "map_of (otherPlayers (processEntry e st)) X = Some (setHealth h (moveTo px py p))"
  using assms by (simp add: processEntry_def Let_def update_conv')

lemma step_removes_overlay_only_with_roster:
  assumes "damagedPlayers st X = Some h" and "damagedPlayers (step ev st) X = None"
  shows "X \<in> registered st \<and> X \<notin> registered (step ev st)"
proof (cases ev)
  case (Update inp)
  have "overlaid X st" using assms(1) by (simp add: overlaid_def)
  then have "overlaid X (update inp st)" by (rule update_keeps_overlay)
  with assms(2) Update show ?thesis by (simp add: overlaid_def)
next
  case (UpdatePlayerStates pss)
  show ?thesis
  proof (cases pss)
    case None
    with assms UpdatePlayerStates show ?thesis by (simp add: updatePlayerStates_def)
  next
    case (Some ps)
    with assms UpdatePlayerStates
    have "X \<in> registered st \<and> X \<notin> ps_account ` set ps"
      by (simp add: updatePlayerStates_overlay split: if_splits)
    then show ?thesis
      using UpdatePlayerStates Some by (simp add: updatePlayerStates_registered)
  qed
qed (use assms in simp_all)

subsection \<open>The budget of the hit gate\<close>

lemma hitBudget_same:
  "hitLog st' = hitLog st \<Longrightarrow> hitPlayers st' = hitPlayers st \<Longrightarrow> hitBudget X st' = hitBudget X st"
  by (simp add: hitBudget_def)

lemma hitBudget_meleeCheck: "hitBudget X (meleeCheck inp ip st) = hitBudget X st"
  by (simp add: meleeCheck_def Let_def hitBudget_def)

lemma hitBudget_meleePass: "hitBudget X (meleePass inp st) = hitBudget X st"
  by (simp add: meleePass_def fold_frame hitBudget_meleeCheck split: option.split)

lemma hitBudget_projectilePass: "hitBudget X (projectilePass inp st) = hitBudget X st"
  by (simp add: hitBudget_def)

lemma hitBudget_update_noSpawn:
  assumes "\<not> (ti_justDown inp \<and> \<not> attackCooldown st \<and> serverInitialized st)"
  shows "hitBudget X (update inp st) = hitBudget X st"
proof -
  let ?s1 = "if serverInitialized st \<and> ti_time inp - lastPositionUpdate st > 50
             then (updatePlayerOnServer st)\<lparr>lastPositionUpdate := ti_time inp\<rparr> else st"
  let ?s2 = "if ti_justDown inp \<and> \<not> attackCooldown ?s1
             then handleSpacebarAttack (ti_flipX inp) (ti_attackNow inp) ?s1 else ?s1"
  have "hitLog ?s2 = hitLog st \<and> hitPlayers ?s2 = hitPlayers st"
    using assms by (auto simp: handleSpacebarAttack_def)
  then have "hitBudget X ?s2 = hitBudget X st" by (simp only: hitBudget_def)
  moreover have "update inp st = projectilePass inp (meleePass inp ?s2)"
    by (simp add: update_def Let_def)
  ultimately show ?thesis
    by (simp add: hitBudget_projectilePass hitBudget_meleePass)
qed

lemma hitBudget_update_any:
  "hitBudget X (update inp st) \<le> count_list (hitLog st) X + 1"
proof -
  let ?s1 = "if serverInitialized st \<and> ti_time inp - lastPositionUpdate st > 50
             then (updatePlayerOnServer st)\<lparr>lastPositionUpdate := ti_time inp\<rparr> else st"
  let ?s2 = "if ti_justDown inp \<and> \<not> attackCooldown ?s1
             then handleSpacebarAttack (ti_flipX inp) (ti_attackNow inp) ?s1 else ?s1"
  have "hitLog ?s2 = hitLog st" by simp
  then have "hitBudget X ?s2 \<le> count_list (hitLog st) X + 1"
    unfolding hitBudget_def by (simp del: handleSpacebarAttack_frame)
  moreover have "update inp st = projectilePass inp (meleePass inp ?s2)"
    by (simp add: update_def Let_def)
  ultimately show ?thesis
    by (simp add: hitBudget_projectilePass hitBudget_meleePass)
qed

lemma hitBudget_step_noSpawn:
  "\<not> spawnsAttack ev st \<Longrightarrow> hitBudget X (step ev st) = hitBudget X st"
proof (cases ev)
  case (Update inp)
  assume "\<not> spawnsAttack ev st"
  with Update have "\<not> (ti_justDown inp \<and> \<not> attackCooldown st \<and> serverInitialized st)"
    by (simp add: spawnsAttack_def)
  then show ?thesis using Update by (simp add: hitBudget_update_noSpawn)
qed (simp_all add: hitBudget_def)

lemma hitBudget_step_any: "hitBudget X (step ev st) \<le> count_list (hitLog st) X + 1"
proof (cases ev)
  case (Update inp)
  then show ?thesis using hitBudget_update_any[of X inp st] by simp
qed (simp_all add: hitBudget_def)

lemma hitBudget_run_noSpawn: "noSpawn evs st \<Longrightarrow> hitBudget X (run evs st) = hitBudget X st"
  unfolding run_def
  by (induction evs arbitrary: st) (simp_all add: hitBudget_step_noSpawn)

lemma count_le_hitBudget: "count_list (hitLog st) X \<le> hitBudget X st"
  by (simp add: hitBudget_def)

subsection \<open>A young projectile stays\<close>

lemma projectileCheck_other_stays:
  "fst ip \<noteq> pid \<Longrightarrow> (pid, pr) \<in> set (projectiles st) \<Longrightarrow>
     (pid, pr) \<in> set (projectiles (projectileCheck inp ip st))"
  by (auto simp: projectileCheck_def Let_def AList.delete_eq)

lemma projectileCheck_young_stays:
  assumes "ti_now inp pid \<le> pr_creationTime pr + 2000"
    and "\<not> ti_overlapsObstacles inp pid"
    and "\<not> (pr_ownerId pr \<noteq> myAccount st \<and> ti_overlapsPlayer inp pid)"
  shows "projectileCheck inp (pid, pr) st = st"
  using assms by (auto simp: projectileCheck_def Let_def)

lemma fold_projectileCheck_young:
  assumes "ti_now inp pid \<le> pr_creationTime pr + 2000"
    and "\<not> ti_overlapsObstacles inp pid"
    and "\<not> (pr_ownerId pr \<noteq> m \<and> ti_overlapsPlayer inp pid)"
  shows "\<forall>x \<in> set xs. fst x = pid \<longrightarrow> x = (pid, pr) \<Longrightarrow> myAccount st = m \<Longrightarrow>
         (pid, pr) \<in> set (projectiles st) \<Longrightarrow>
         (pid, pr) \<in> set (projectiles (fold (projectileCheck inp) xs st))"
proof (induction xs arbitrary: st)
  case Nil
  then show ?case by simp
next
  case (Cons x xs)
  have rest: "\<forall>y \<in> set xs. fst y = pid \<longrightarrow> y = (pid, pr)"
    using Cons.prems(1) by simp
  have acc: "myAccount (projectileCheck inp x st) = m"
    using Cons.prems(2) by simp
  have "(pid, pr) \<in> set (projectiles (projectileCheck inp x st))"
  proof (cases "fst x = pid")
    case True
    with Cons.prems(1) have "x = (pid, pr)" by simp
    moreover have "projectileCheck inp (pid, pr) st = st"
      using assms Cons.prems(2) by (intro projectileCheck_young_stays) simp_all
    ultimately show ?thesis using Cons.prems(3) by simp
  next
    case False
    then show ?thesis using Cons.prems(3) by (rule projectileCheck_other_stays)
  qed
  from Cons.IH[OF rest acc this] show ?case by simp
qed

lemma distinct_keys_unique:
  assumes "distinct (map fst xs)" and "(k, v) \<in> set xs"
  shows "\<forall>x \<in> set xs. fst x = k \<longrightarrow> x = (k, v)"
  using assms by (metis eq_key_imp_eq_value prod.collapse)

lemma update_as_projectilePass_account:
  "\<exists>s. update inp st = projectilePass inp s \<and> projectiles s = projectiles st \<and>
       myAccount s = myAccount st"
proof -
  let ?s1 = "if serverInitialized st \<and> ti_time inp - lastPositionUpdate st > 50
             then (updatePlayerOnServer st)\<lparr>lastPositionUpdate := ti_time inp\<rparr> else st"
  let ?s2 = "if ti_justDown inp \<and> \<not> attackCooldown ?s1
             then handleSpacebarAttack (ti_flipX inp) (ti_attackNow inp) ?s1 else ?s1"
  have "update inp st = projectilePass inp (meleePass inp ?s2)"
    by (simp add: update_def Let_def)
  moreover have "projectiles (meleePass inp ?s2) = projectiles st"
    by simp
  moreover have "myAccount (meleePass inp ?s2) = myAccount st"
    by simp
  ultimately show ?thesis by blast
qed

lemma projectilePass_young:
  assumes "(pid, pr) \<in> set (projectiles st)" and "distinct (map fst (projectiles st))"
    and "ti_now inp pid \<le> pr_creationTime pr + 2000"
    and "\<not> ti_overlapsObstacles inp pid"
    and "\<not> (pr_ownerId pr \<noteq> myAccount st \<and> ti_overlapsPlayer inp pid)"
  shows "(pid, pr) \<in> set (projectiles (projectilePass inp st))"
  unfolding projectilePass_def
  by (rule fold_projectileCheck_young[OF assms(3,4,5) distinct_keys_unique[OF assms(2,1)] refl assms(1)])

section \<open>The claims\<close>

text \<open>
  C3. For a known remote participant with no overlay entry, a roster snapshot is to set
  the health to the value the snapshot supplies, a supplied 0 included, and to 100 only
  when the field is absent. The code resolves \<^verbatim>\<open>playerState.health || 100\<close>, and 0 is
  falsy: a participant with health 40 whose entry reports health 0 ends with health 100.
\<close>

theorem snapshot_health_zero_becomes_default:
  "map_option p_health
     (map_of (otherPlayers
        (updatePlayerStates
           (Some [\<lparr>ps_account = ''p1'', ps_x = Some 10, ps_y = Some 20, ps_name = None,
                   ps_health = Some 0\<rparr>])
           (scene0\<lparr>otherPlayers := [(''p1'', setHealth 40 (newPlayer 0 0 ''P1'' ''p1'' 1))]\<rparr>)))
        ''p1'') = Some 100"
  by (simp add: updatePlayerStates_def processEntry_def removeAbsent_def scene0_def
      orNumber_def setHealth_def moveTo_def newPlayer_def Let_def)

text \<open>
  C8. The index freed on departure is to be the one the fallback of the allocation
  computes, \<open>abs(hash(id)) mod 8 + 1\<close>. The departure branch computes
  \<^verbatim>\<open>hashCode(id) % 8 + 1\<close> without the absolute value: for the id \<open>''player''\<close>, whose hash
  is negative, it frees \<open>-6\<close>, while the fallback (all of 1..8 in use) assigns 8; when
  that participant leaves, none of 1..8 is freed.
\<close>

theorem release_index_differs_from_fallback:
  "releaseIndex ''player'' = - 6 \<and>
   fst (getUniqueColorIndex ''player''
          (scene0\<lparr>usedColorIndices := {1, 2, 3, 4, 5, 6, 7, 8}\<rparr>)) = 8 \<and>
   usedColorIndices
     (updatePlayerStates (Some [])
        (scene0\<lparr>otherPlayers := [(''player'', newPlayer 0 0 ''P'' ''player'' 8)],
                usedColorIndices := {1, 2, 3, 4, 5, 6, 7, 8}\<rparr>)) = {1, 2, 3, 4, 5, 6, 7, 8}"
  by (simp add: releaseIndex_def getUniqueColorIndex_def hashCode_player jsRem_def upto_1_8
      updatePlayerStates_def removeAbsent_def scene0_def Let_def)

text \<open>
  C10. The death handler acts only for the local participant: called with another id it
  returns the scene as it is, so it sends nothing. Called with the local id it puts
  the local player at the drawn position, resets it and sends \<^verbatim>\<open>playerDied\<close> when the
  server is initialised. \<^verbatim>\<open>handlePlayerHit\<close> sends \<^verbatim>\<open>playerDied\<close> exactly when the
  target is the local participant and the damage brings the local health to 0 or below,
  and in every run of the scene each \<^verbatim>\<open>playerDied\<close> call names the local account.
\<close>

theorem death_handler_local_only:
  "(playerId \<noteq> myAccount st \<longrightarrow> handlePlayerDeath rnd playerId killerId st = st) \<and>
   player (handlePlayerDeath rnd (myAccount st) killerId st) =
     reset (setPosition (fst rnd) (snd rnd) (player st)) \<and>
   emitted st (handlePlayerDeath rnd (myAccount st) killerId st) =
     (if serverInitialized st then [PlayerDied (myAccount st) killerId] else []) \<and>
   (PlayerDied p k \<in> set (emitted st (handlePlayerHit rnd targetId attackerId projectileId st)) \<longleftrightarrow>
      p = targetId \<and> k = attackerId \<and> targetId = myAccount st \<and>
      p_health (damage 10 (player st)) \<le> 0 \<and> serverInitialized st) \<and>
   (PlayerDied p k \<in> set (emitted st (run evs st)) \<longrightarrow> p = myAccount st)"
proof (intro conjI)
  show "playerId \<noteq> myAccount st \<longrightarrow> handlePlayerDeath rnd playerId killerId st = st"
    by (simp add: handlePlayerDeath_def)
  show "player (handlePlayerDeath rnd (myAccount st) killerId st) =
     reset (setPosition (fst rnd) (snd rnd) (player st))"
    by (simp add: handlePlayerDeath_def Let_def)
  show "emitted st (handlePlayerDeath rnd (myAccount st) killerId st) =
     (if serverInitialized st then [PlayerDied (myAccount st) killerId] else [])"
    by (simp add: handlePlayerDeath_def Let_def emitted_def)
  show "PlayerDied p k \<in> set (emitted st (handlePlayerHit rnd targetId attackerId projectileId st)) \<longleftrightarrow>
      p = targetId \<and> k = attackerId \<and> targetId = myAccount st \<and>
      p_health (damage 10 (player st)) \<le> 0 \<and> serverInitialized st"
    by (auto simp: handlePlayerHit_def handlePlayerDeath_def Let_def emitted_def
        split: option.split)
  show "PlayerDied p k \<in> set (emitted st (run evs st)) \<longrightarrow> p = myAccount st"
  proof
    assume a: "PlayerDied p k \<in> set (emitted st (run evs st))"
    obtain new where n: "outbox (run evs st) = outbox st @ new"
      "\<forall>p k. PlayerDied p k \<in> set new \<longrightarrow> p = myAccount st"
      using deathsLocal_run[of st evs] unfolding deathsLocal_def by blast
    from a emitted_append[OF n(1)] have "PlayerDied p k \<in> set new" by simp
    with n(2) show "p = myAccount st" by blast
  qed
qed

theorem death_handler_local_only_witness:
  "''p1'' \<noteq> myAccount scene0 \<and>
   handlePlayerDeath (300, 400) ''p1'' ''p2'' scene0 = scene0 \<and>
   PlayerDied ''me'' ''p2'' \<in>
     set (emitted
       (scene0\<lparr>player := setHealth 10 (player scene0),
               projectiles := [(''b1'', \<lparr>pr_x = 1, pr_y = 2, pr_ownerId = ''p2'',
                                         pr_creationTime = 0\<rparr>)]\<rparr>)
       (run [Update (tick0\<lparr>ti_overlapsPlayer := (\<lambda>_. True)\<rparr>)]
          (scene0\<lparr>player := setHealth 10 (player scene0),
                  projectiles := [(''b1'', \<lparr>pr_x = 1, pr_y = 2, pr_ownerId = ''p2'',
                                            pr_creationTime = 0\<rparr>)]\<rparr>))) \<and>
   ''me'' = myAccount scene0"
  using death_handler_local_only[of "''p1''" scene0 "(300, 400)" "''p2''" "''me''" "''p2''"
      "''me''" "''p2''" "''b1''" "[]"]
    death_handler_local_only[of "''p1''"
      "scene0\<lparr>player := setHealth 10 (player scene0),
               projectiles := [(''b1'', \<lparr>pr_x = 1, pr_y = 2, pr_ownerId = ''p2'',
                                         pr_creationTime = 0\<rparr>)]\<rparr>"
      "(300, 400)" "''p2''" "''me''" "''p2''" "''me''" "''p2''" "''b1''"
      "[Update (tick0\<lparr>ti_overlapsPlayer := (\<lambda>_. True)\<rparr>)]"]
  by (simp add: scene_eval)

text \<open>
  C6. Once the world bootstrap has completed (the assets being loaded), every later
  invocation is a no-op, whatever obstacle list it brings: a second call of
  \<^verbatim>\<open>createObstaclesFromServer\<close> and the subscription callback return the scene as it
  is, \<^verbatim>\<open>updateRoomState\<close> leaves the geometry as it is, and over every run of the
  scene the flag stays true and the geometry is the one of the first call.
\<close>

theorem bootstrap_once:
  assumes "assetsLoaded st"
  shows "let st1 = createObstaclesFromServer od1 st in
     obstaclesCreated st1 \<and>
     createObstaclesFromServer od2 st1 = st1 \<and>
     roomStateCallback s st1 = st1 \<and>
     obstacles (updateRoomState rs st1) = obstacles st1 \<and>
     obstaclesCreated (run evs st1) \<and>
     obstacles (run evs st1) = obstacles st1"
proof -
  have "obstaclesCreated (createObstaclesFromServer od1 st)"
    using assms by (rule createObstaclesFromServer_sets_flag)
  then show ?thesis
    unfolding Let_def
    by (simp add: createObstaclesFromServer_done roomStateCallback_done updateRoomState_done
        run_keeps_geometry)
qed

theorem bootstrap_once_witness:
  "assetsLoaded scene0 \<and>
   obstaclesCreated
     (createObstaclesFromServer (ObstacleArray [Some \<lparr>ob_x = Some 300, ob_y = Some 400\<rparr>]) scene0) \<and>
   createObstaclesFromServer (ObstacleArray [])
     (createObstaclesFromServer (ObstacleArray [Some \<lparr>ob_x = Some 300, ob_y = Some 400\<rparr>]) scene0) =
   createObstaclesFromServer (ObstacleArray [Some \<lparr>ob_x = Some 300, ob_y = Some 400\<rparr>]) scene0"
  using bootstrap_once[of scene0 "ObstacleArray [Some \<lparr>ob_x = Some 300, ob_y = Some 400\<rparr>]"
      "ObstacleArray []" None "\<lparr>rs_obstacles = None, rs_powerups = None\<rparr>" "[]"]
  by (simp add: scene0_def Let_def)

text \<open>
  C9. The local id is never a key of the remote collection: from a scene in which it
  is not registered, handling a snapshot entry, a whole roster snapshot and every run
  of the scene's events keep it unregistered (and keep the local id itself).
\<close>

theorem local_id_never_registered:
  assumes "myAccount st \<notin> registered st"
  shows "myAccount st \<notin> registered (processEntry e st) \<and>
         myAccount st \<notin> registered (updatePlayerStates pss st) \<and>
         myAccount (run evs st) = myAccount st \<and>
         myAccount st \<notin> registered (run evs st)"
  using assms
  by (simp add: processEntry_keeps_local_out updatePlayerStates_keeps_local_out
      run_keeps_local_out)

theorem local_id_never_registered_witness:
  "myAccount scene0 \<notin> registered scene0 \<and>
   registered
     (updatePlayerStates
        (Some [\<lparr>ps_account = ''me'', ps_x = Some 1, ps_y = Some 2, ps_name = None,
                 ps_health = None\<rparr>,
               \<lparr>ps_account = ''p1'', ps_x = Some 3, ps_y = Some 4, ps_name = None,
                 ps_health = None\<rparr>])
        scene0) = {''p1''}"
  using local_id_never_registered[of scene0
      "\<lparr>ps_account = ''me'', ps_x = Some 1, ps_y = Some 2, ps_name = None, ps_health = None\<rparr>"
      "Some [\<lparr>ps_account = ''me'', ps_x = Some 1, ps_y = Some 2, ps_name = None,
               ps_health = None\<rparr>,
             \<lparr>ps_account = ''p1'', ps_x = Some 3, ps_y = Some 4, ps_name = None,
               ps_health = None\<rparr>]" "[]"]
  by (simp add: scene_eval getUniqueColorIndex_def upto_1_8 orString_def)

text \<open>
  C1. The claim: after a roster snapshot the registered ids are exactly the account ids
  of the snapshot without the local id, entries without \<open>x\<close> or \<open>y\<close> included. The
  code skips an entry without \<open>x\<close> or \<open>y\<close>, so an unknown id that only has such
  entries is not registered: the claim fails on a snapshot whose single entry lacks
  \<open>x\<close>.
\<close>

theorem roster_membership_counterexample:
  "registered
     (updatePlayerStates
        (Some [\<lparr>ps_account = ''p1'', ps_x = None, ps_y = Some 5, ps_name = None,
                 ps_health = None\<rparr>])
        scene0)
   \<noteq> ps_account ` set [\<lparr>ps_account = ''p1'', ps_x = None, ps_y = Some 5, ps_name = None,
                           ps_health = None\<rparr>] - {myAccount scene0}"
  by (simp add: scene_eval)

text \<open>
  C1, amended. From a scene in which the local id is not registered, the registered ids
  after a roster snapshot are exactly the non-local account ids of the snapshot that
  were registered before or have an entry with both coordinates.
\<close>

theorem roster_membership:
  assumes "myAccount st \<notin> registered st"
  shows "registered (updatePlayerStates (Some pss) st) =
     {pid \<in> ps_account ` set pss - {myAccount st}.
        pid \<in> registered st \<or> (\<exists>e \<in> set pss. ps_account e = pid \<and> hasPosition e)}"
proof -
  have "{ps_account e | e. e \<in> set pss \<and> ps_account e \<noteq> myAccount st \<and> hasPosition e} =
        {pid \<in> ps_account ` set pss - {myAccount st}. \<exists>e \<in> set pss. ps_account e = pid \<and> hasPosition e}"
    by (auto, metis)
  then show ?thesis
    using assms unfolding updatePlayerStates_registered by auto
qed

theorem roster_membership_witness:
  "myAccount scene0 \<notin> registered scene0 \<and>
   registered
     (updatePlayerStates
        (Some [\<lparr>ps_account = ''p1'', ps_x = Some 3, ps_y = Some 4, ps_name = None,
                 ps_health = None\<rparr>,
               \<lparr>ps_account = ''p2'', ps_x = None, ps_y = Some 4, ps_name = None,
                 ps_health = None\<rparr>])
        scene0) = {''p1''}"
  using roster_membership[of scene0
      "[\<lparr>ps_account = ''p1'', ps_x = Some 3, ps_y = Some 4, ps_name = None, ps_health = None\<rparr>,
        \<lparr>ps_account = ''p2'', ps_x = None, ps_y = Some 4, ps_name = None, ps_health = None\<rparr>]"]
  by (simp add: scene_eval getUniqueColorIndex_def upto_1_8 orString_def)

text \<open>
  C5. The claim: a projectile created at \<open>t0\<close> is gone after the projectile pass of any
  frame at a time \<open>t \<ge> t0 + 2000\<close>. The pass removes a projectile whose age is greater
  than 2000 (\<^verbatim>\<open>Date.now() - creationTime > 2000\<close>): created at 1000 and examined at
  3000, a projectile that collides with nothing stays.
\<close>

theorem projectile_ttl_counterexample:
  "(1000::int) + 2000 \<le> 3000 \<and>
   ''b1'' \<in> fst ` set (projectiles
      (projectilePass (tick0\<lparr>ti_now := (\<lambda>_. 3000)\<rparr>)
         (handleProjectileFired
            \<lparr>pf_x = 0, pf_y = 0, pf_targetX = 1, pf_targetY = 1, pf_id = ''b1'',
              pf_ownerId = ''p2''\<rparr> 1000 scene0)))"
  by (simp add: scene_eval)

text \<open>
  C5, amended. A live projectile whose creation time is more than 2000 ms before the
  clock reading taken when the pass examines it is not live after the pass, nor after
  the whole frame update, whatever the overlap tests say. A live projectile whose age at
  that reading is at most 2000 ms (exactly 2000 ms included) and that overlaps neither
  the obstacles nor, when another participant owns it, the local player is still live
  after the pass and after the frame update, the live set holding one projectile per id.
\<close>

theorem projectile_ttl:
  assumes "(pid, pr) \<in> set (projectiles st)"
  shows "(pr_creationTime pr + 2000 < ti_now inp pid \<longrightarrow>
            pid \<notin> fst ` set (projectiles (projectilePass inp st)) \<and>
            pid \<notin> fst ` set (projectiles (update inp st))) \<and>
         (distinct (map fst (projectiles st)) \<and>
          ti_now inp pid \<le> pr_creationTime pr + 2000 \<and>
          \<not> ti_overlapsObstacles inp pid \<and>
          \<not> (pr_ownerId pr \<noteq> myAccount st \<and> ti_overlapsPlayer inp pid) \<longrightarrow>
            (pid, pr) \<in> set (projectiles (projectilePass inp st)) \<and>
            (pid, pr) \<in> set (projectiles (update inp st)))"
proof (intro conjI impI)
  assume old: "pr_creationTime pr + 2000 < ti_now inp pid"
  show "pid \<notin> fst ` set (projectiles (projectilePass inp st))"
    unfolding projectilePass_def using assms old by (rule fold_projectileCheck_expired)
  obtain s where s: "update inp st = projectilePass inp s" "projectiles s = projectiles st"
    using update_as_projectilePass by blast
  have "(pid, pr) \<in> set (projectiles s)"
    using assms s(2) by simp
  then have "pid \<notin> fst ` set (projectiles (projectilePass inp s))"
    unfolding projectilePass_def using old by (rule fold_projectileCheck_expired)
  then show "pid \<notin> fst ` set (projectiles (update inp st))"
    using s(1) by simp
next
  assume young: "distinct (map fst (projectiles st)) \<and>
          ti_now inp pid \<le> pr_creationTime pr + 2000 \<and>
          \<not> ti_overlapsObstacles inp pid \<and>
          \<not> (pr_ownerId pr \<noteq> myAccount st \<and> ti_overlapsPlayer inp pid)"
  then show "(pid, pr) \<in> set (projectiles (projectilePass inp st))"
    using assms by (intro projectilePass_young) simp_all
  obtain s where s: "update inp st = projectilePass inp s" "projectiles s = projectiles st"
    "myAccount s = myAccount st"
    using update_as_projectilePass_account by blast
  have "(pid, pr) \<in> set (projectiles (projectilePass inp s))"
    using assms young s(2,3) by (intro projectilePass_young) simp_all
  then show "(pid, pr) \<in> set (projectiles (update inp st))"
    using s(1) by simp
qed

theorem projectile_ttl_witness:
  "(''b1'', \<lparr>pr_x = 0, pr_y = 0, pr_ownerId = ''p2'', pr_creationTime = 1000\<rparr>) \<in>
     set (projectiles (handleProjectileFired
            \<lparr>pf_x = 0, pf_y = 0, pf_targetX = 1, pf_targetY = 1, pf_id = ''b1'',
              pf_ownerId = ''p2''\<rparr> 1000 scene0)) \<and>
   (1000::int) + 2000 < 3001 \<and>
   projectiles
      (projectilePass (tick0\<lparr>ti_now := (\<lambda>_. 3001)\<rparr>)
         (handleProjectileFired
            \<lparr>pf_x = 0, pf_y = 0, pf_targetX = 1, pf_targetY = 1, pf_id = ''b1'',
              pf_ownerId = ''p2''\<rparr> 1000 scene0)) = [] \<and>
   distinct (map fst (projectiles (handleProjectileFired
            \<lparr>pf_x = 0, pf_y = 0, pf_targetX = 1, pf_targetY = 1, pf_id = ''b1'',
              pf_ownerId = ''p2''\<rparr> 1000 scene0))) \<and>
   (3000::int) \<le> 1000 + 2000 \<and>
   projectiles
      (update (tick0\<lparr>ti_now := (\<lambda>_. 3000)\<rparr>)
         (handleProjectileFired
            \<lparr>pf_x = 0, pf_y = 0, pf_targetX = 1, pf_targetY = 1, pf_id = ''b1'',
              pf_ownerId = ''p2''\<rparr> 1000 scene0)) =
     [(''b1'', \<lparr>pr_x = 0, pr_y = 0, pr_ownerId = ''p2'', pr_creationTime = 1000\<rparr>)]"
  using projectile_ttl[of "''b1''"
      "\<lparr>pr_x = 0, pr_y = 0, pr_ownerId = ''p2'', pr_creationTime = 1000\<rparr>"
      "handleProjectileFired
            \<lparr>pf_x = 0, pf_y = 0, pf_targetX = 1, pf_targetY = 1, pf_id = ''b1'',
              pf_ownerId = ''p2''\<rparr> 1000 scene0"
      "tick0\<lparr>ti_now := (\<lambda>_. 3001)\<rparr>"]
    projectile_ttl[of "''b1''"
      "\<lparr>pr_x = 0, pr_y = 0, pr_ownerId = ''p2'', pr_creationTime = 1000\<rparr>"
      "handleProjectileFired
            \<lparr>pf_x = 0, pf_y = 0, pf_targetX = 1, pf_targetY = 1, pf_id = ''b1'',
              pf_ownerId = ''p2''\<rparr> 1000 scene0"
      "tick0\<lparr>ti_now := (\<lambda>_. 3000)\<rparr>"]
  by (simp add: scene_eval)

text \<open>
  C7. Starting with no colour index in use, allocating indices to at most 8 distinct
  ids one after the other, with no release in between, gives pairwise distinct indices,
  each in 1..8.
\<close>

theorem color_indices_distinct:
  assumes "usedColorIndices st = {}" and "length pids \<le> 8" and "distinct pids"
  shows "distinct (fst (allocateAll pids st)) \<and>
         (\<forall>i \<in> set (fst (allocateAll pids st)). 1 \<le> i \<and> i \<le> 8)"
proof -
  have fc: "freeColors st = [1..8]"
    using assms(1) by (simp add: freeColors_def)
  have "length pids \<le> length (freeColors st)"
    using assms(2) by (simp add: fc)
  then have a: "fst (allocateAll pids st) = take (length pids) [1..8]"
    using allocateAll_free fc by simp
  have "distinct (take (length pids) [1..8::int])"
    by (rule distinct_take) simp
  moreover have "set (take (length pids) [1..8::int]) \<subseteq> {1..8}"
    using set_take_subset[of "length pids" "[1..8::int]"] by simp
  ultimately show ?thesis unfolding a by auto
qed

theorem color_indices_distinct_witness:
  "usedColorIndices scene0 = {} \<and> length [''a'', ''b'', ''c''] \<le> (8::nat) \<and>
   distinct [''a'', ''b'', ''c''] \<and>
   fst (allocateAll [''a'', ''b'', ''c''] scene0) = [1, 2, 3]"
  using color_indices_distinct[of scene0 "[''a'', ''b'', ''c'']"]
  by (simp add: scene0_def getUniqueColorIndex_def upto_1_8)

text \<open>
  C2. While the overlay holds an entry \<open>h\<close> for a participant \<open>X\<close>: the health
  resolution of a snapshot entry for the known participant \<open>X\<close> gives \<open>h\<close>, whatever
  health the entry reports; handling an entry leaves the overlay entry as it is; a
  whole roster snapshot leaves it as it is unless \<open>X\<close> is registered and absent from
  the snapshot, in which case it is dropped; and an event after which the entry is
  gone has removed \<open>X\<close> from the registry.
\<close>

theorem overlay_sticky:
  assumes "damagedPlayers st X = Some h"
  shows "(ps_account e = X \<and> X \<noteq> myAccount st \<and> map_of (otherPlayers st) X = Some p \<and>
          ps_x e = Some px \<and> ps_y e = Some py \<longrightarrow>
            map_of (otherPlayers (processEntry e st)) X = Some (setHealth h (moveTo px py p))) \<and>
         damagedPlayers (processEntry e' st) X = Some h \<and>
         damagedPlayers (updatePlayerStates (Some pss) st) X =
           (if X \<in> registered st \<and> X \<notin> ps_account ` set pss then None else Some h) \<and>
         (damagedPlayers (step ev st) X = None \<longrightarrow>
            X \<in> registered st \<and> X \<notin> registered (step ev st))"
  using assms
  by (simp add: processEntry_known_overlay updatePlayerStates_overlay
      step_removes_overlay_only_with_roster del: step.simps)

theorem overlay_sticky_witness:
  "damagedPlayers scene1 ''p1'' = Some 90 \<and> ''p1'' \<noteq> myAccount scene1 \<and>
   map_option p_health
     (map_of (otherPlayers
        (processEntry \<lparr>ps_account = ''p1'', ps_x = Some 30, ps_y = Some 40, ps_name = None,
                        ps_health = Some 100\<rparr> scene1)) ''p1'') = Some 90 \<and>
   damagedPlayers
     (updatePlayerStates
        (Some [\<lparr>ps_account = ''p1'', ps_x = Some 30, ps_y = Some 40, ps_name = None,
                 ps_health = Some 100\<rparr>]) scene1) ''p1'' = Some 90 \<and>
   damagedPlayers (step (UpdatePlayerStates (Some [])) scene1) ''p1'' = None \<and>
   ''p1'' \<in> registered scene1 \<and>
   ''p1'' \<notin> registered (step (UpdatePlayerStates (Some [])) scene1)"
  using overlay_sticky[of scene1 "''p1''" 90
      "\<lparr>ps_account = ''p1'', ps_x = Some 30, ps_y = Some 40, ps_name = None,
        ps_health = Some 100\<rparr>"
      "setHealth 90 (newPlayer 10 20 ''P1'' ''p1'' 1)" 30 40
      "\<lparr>ps_account = ''p1'', ps_x = Some 30, ps_y = Some 40, ps_name = None,
        ps_health = Some 100\<rparr>"
      "[\<lparr>ps_account = ''p1'', ps_x = Some 30, ps_y = Some 40, ps_name = None,
         ps_health = Some 100\<rparr>]"
      "UpdatePlayerStates (Some [])"]
  by (simp add: scene1_def scene_eval)

text \<open>
  C4. A spawned attack starts with the empty hit set; a target that is in the hit set
  is skipped by the overlap check; in a run without a new attack the gate grants a
  target at most one hit, and none to a target already in the hit set; counted from any
  event on (the frame that spawns the attack included), a target is granted at most
  one hit until the next attack is spawned.
\<close>

theorem hit_at_most_once:
  "(serverInitialized st \<longrightarrow>
      hitPlayers (handleSpacebarAttack flipX now st) = {} \<and>
      attackHitbox (handleSpacebarAttack flipX now st) \<noteq> None) \<and>
   (pid \<in> hitPlayers st \<longrightarrow> meleeCheck inp (pid, p) st = st) \<and>
   (noSpawn evs st \<longrightarrow>
      count_list (hitLog (run evs st)) X
        \<le> count_list (hitLog st) X + (if X \<in> hitPlayers st then 0 else 1)) \<and>
   (noSpawn evs (step ev st) \<longrightarrow>
      count_list (hitLog (run (ev # evs) st)) X \<le> count_list (hitLog st) X + 1)"
proof (intro conjI impI)
  assume "serverInitialized st"
  then show "hitPlayers (handleSpacebarAttack flipX now st) = {}"
    and "attackHitbox (handleSpacebarAttack flipX now st) \<noteq> None"
    by (simp_all add: handleSpacebarAttack_def createAttackHitbox_def Let_def)
next
  assume "pid \<in> hitPlayers st"
  then show "meleeCheck inp (pid, p) st = st"
    by (simp add: meleeCheck_def)
next
  assume "noSpawn evs st"
  then have "hitBudget X (run evs st) = hitBudget X st"
    by (rule hitBudget_run_noSpawn)
  with count_le_hitBudget[of "run evs st" X]
  show "count_list (hitLog (run evs st)) X
        \<le> count_list (hitLog st) X + (if X \<in> hitPlayers st then 0 else 1)"
    by (simp add: hitBudget_def)
next
  assume "noSpawn evs (step ev st)"
  then have "hitBudget X (run evs (step ev st)) = hitBudget X (step ev st)"
    by (rule hitBudget_run_noSpawn)
  with count_le_hitBudget[of "run evs (step ev st)" X] hitBudget_step_any[of X ev st]
  show "count_list (hitLog (run (ev # evs) st)) X \<le> count_list (hitLog st) X + 1"
    by (simp add: run_def)
qed

theorem hit_at_most_once_witness:
  "serverInitialized scene2 \<and>
   hitPlayers (handleSpacebarAttack False 0 scene2) = {} \<and>
   ''p1'' \<in> hitPlayers (step (Update tickAttack) scene2) \<and>
   noSpawn [Update tickOverlap, Update tickOverlap] (step (Update tickAttack) scene2) \<and>
   hitLog (run [Update tickAttack, Update tickOverlap, Update tickOverlap] scene2) = [''p1''] \<and>
   damagedPlayers (run [Update tickAttack, Update tickOverlap, Update tickOverlap] scene2) ''p1''
     = Some 90"
  using hit_at_most_once[where st = scene2 and flipX = False and now = 0 and pid = "''p1''"
      and inp = tickOverlap and p = "newPlayer 10 20 ''P1'' ''p1'' 1"
      and evs = "[Update tickOverlap, Update tickOverlap]" and X = "''p1''"
      and ev = "Update tickAttack"]
    hit_at_most_once[where st = "step (Update tickAttack) scene2" and flipX = False and now = 0
      and pid = "''p1''" and inp = tickOverlap and p = "newPlayer 10 20 ''P1'' ''p1'' 1"
      and evs = "[Update tickOverlap, Update tickOverlap]" and X = "''p1''"
      and ev = "Update tickOverlap"]
  by (simp add: scene2_def tickAttack_def tickOverlap_def spawnsAttack_def scene_eval)

end
